theory Spec2Isabelle
  imports Main
begin

section \<open>Go strings and the library functions the package calls\<close>

text \<open>
  A Go string is a sequence of bytes; it is modelled as \<open>string\<close> (a list of \<open>char\<close>,
  each a byte). The standard library functions the package calls are written out here for
  the arguments the package gives them: \<open>strings.HasPrefix\<close>, \<open>strings.TrimLeft\<close> with
  an ASCII cut set, \<open>strings.SplitN\<close> with a one-byte separator and \<open>n = 2\<close>,
  \<open>strings.Split\<close> and \<open>strings.Join\<close> with a one-byte separator, \<open>strings.TrimSpace\<close>,
  \<open>path.Base\<close>, the rune count of a string, the verb \<open>%d\<close> and \<open>strconv.ParseInt\<close>.
\<close>

definition HasPrefix :: "string \<Rightarrow> string \<Rightarrow> bool" where
  "HasPrefix s pre = (take (length pre) s = pre)"

definition TrimLeft :: "string \<Rightarrow> string \<Rightarrow> string" where
  "TrimLeft s cutset = dropWhile (\<lambda>c. c \<in> set cutset) s"

text \<open>\<open>strings.SplitN(s, sep, 2)\<close>: at most two substrings, the second the unsplit rest.\<close>

definition SplitN2 :: "string \<Rightarrow> char \<Rightarrow> string list" where
  "SplitN2 s sep =
     (if sep \<in> set s
      then [takeWhile (\<lambda>c. c \<noteq> sep) s, tl (dropWhile (\<lambda>c. c \<noteq> sep) s)]
      else [s])"

text \<open>\<open>strings.Split(s, sep)\<close> and \<open>strings.Join(elems, sep)\<close>, for a one-byte separator.\<close>

fun Split :: "string \<Rightarrow> char \<Rightarrow> string list" where
  "Split [] sep = [[]]"
| "Split (c # cs) sep =
     (if c = sep then [] # Split cs sep
      else (case Split cs sep of [] \<Rightarrow> [[c]] | l # ls \<Rightarrow> (c # l) # ls))"

fun Join :: "string list \<Rightarrow> string \<Rightarrow> string" where
  "Join [] sep = []"
| "Join [x] sep = x"
| "Join (x # y # ys) sep = x @ sep @ Join (y # ys) sep"

abbreviation NL :: char where
  "NL \<equiv> CHR 0x0A"

text \<open>
  \<open>strings.TrimSpace\<close>, for text whose white space is ASCII (tab, newline, vertical tab,
  form feed, carriage return, space). Go also trims the white space of Unicode beyond ASCII
  (U+0085, U+00A0 and others); help texts holding such characters are outside this model.
\<close>

definition isSpace :: "char \<Rightarrow> bool" where
  "isSpace c = (c \<in> set [CHR 0x09, CHR 0x0A, CHR 0x0B, CHR 0x0C, CHR 0x0D, CHR 0x20])"

definition TrimSpace :: "string \<Rightarrow> string" where
  "TrimSpace s = rev (dropWhile isSpace (rev (dropWhile isSpace s)))"

text \<open>\<open>path.Base\<close>: the last element of a slash-separated path.\<close>

definition Base :: "string \<Rightarrow> string" where
  "Base path =
     (if path = '''' then ''.''
      else
        let stripped = rev (dropWhile (\<lambda>c. c = CHR ''/'') (rev path));
            last_elem = rev (takeWhile (\<lambda>c. c \<noteq> CHR ''/'') (rev stripped))
        in if last_elem = '''' then ''/'' else last_elem)"

text \<open>
  \<open>len([]rune(s))\<close>: the number of runes of a string. The conversion decodes UTF-8; a
  byte that starts no well-formed encoding counts as one rune (U+FFFD) of width one.
  \<open>rune_width\<close> is the width in bytes of the first rune of a non-empty string.
\<close>

definition cont_byte :: "nat \<Rightarrow> nat \<Rightarrow> char \<Rightarrow> bool" where
  "cont_byte lo hi c = (lo \<le> (of_char c :: nat) \<and> (of_char c :: nat) \<le> hi)"

fun rune_width :: "string \<Rightarrow> nat" where
  "rune_width [] = 0"
| "rune_width (c # cs) =
     (let b = (of_char c :: nat) in
      if b < 0x80 then 1
      else if 0xC2 \<le> b \<and> b \<le> 0xDF then
        (case cs of c1 # _ \<Rightarrow> if cont_byte 0x80 0xBF c1 then 2 else 1 | _ \<Rightarrow> 1)
      else if 0xE0 \<le> b \<and> b \<le> 0xEF then
        (case cs of c1 # c2 # _ \<Rightarrow>
           if cont_byte (if b = 0xE0 then 0xA0 else 0x80) (if b = 0xED then 0x9F else 0xBF) c1
              \<and> cont_byte 0x80 0xBF c2 then 3 else 1
         | _ \<Rightarrow> 1)
      else if 0xF0 \<le> b \<and> b \<le> 0xF4 then
        (case cs of c1 # c2 # c3 # _ \<Rightarrow>
           if cont_byte (if b = 0xF0 then 0x90 else 0x80) (if b = 0xF4 then 0x8F else 0xBF) c1
              \<and> cont_byte 0x80 0xBF c2 \<and> cont_byte 0x80 0xBF c3 then 4 else 1
         | _ \<Rightarrow> 1)
      else 1)"

function RuneCount :: "string \<Rightarrow> nat" where
  "RuneCount [] = 0"
| "RuneCount (c # cs) = Suc (RuneCount (drop (rune_width (c # cs) - 1) cs))"
  by pat_completeness auto
termination
  by (relation "measure length") auto

subsection \<open>Numbers as text\<close>

text \<open>
  Go's \<open>int\<close> is taken to be 64 bits wide (as on every 64-bit platform), so
  \<open>int(parsedVal)\<close> is the identity on what \<open>strconv.ParseInt(s, 10, 64)\<close> returns.
  Integers are modelled as \<open>int\<close>: the package compares and prints them, and adds one
  to \<open>argIdx\<close> at most once for each token, so no arithmetic of the package overflows.

  \<open>formatInt\<close> is the verb \<open>%d\<close> of \<open>fmt\<close>.
\<close>

fun digits :: "nat \<Rightarrow> string" where
  "digits n =
     (if n < 10 then [''0123456789'' ! n]
      else digits (n div 10) @ [''0123456789'' ! (n mod 10)])"

declare digits.simps [simp del]

definition formatInt :: "int \<Rightarrow> string" where
  "formatInt i = (if i < 0 then ''-'' @ digits (nat (- i)) else digits (nat i))"

text \<open>
  \<open>strconv.ParseInt(s, 10, 64)\<close>, from its documentation: an optional sign \<open>+\<close> or
  \<open>-\<close>, then one or more decimal digits; the error is a syntax error when \<open>s\<close> is empty
  or holds another character, a range error when the value does not fit 64 signed bits.
  \<open>None\<close> stands for \<open>err != nil\<close>, which is all the package reads of the error.
\<close>

definition digit_val :: "char \<Rightarrow> nat option" where
  "digit_val c =
     (let b = (of_char c :: nat) in if 48 \<le> b \<and> b \<le> 57 then Some (b - 48) else None)"

fun parse_digits :: "string \<Rightarrow> nat \<Rightarrow> nat option" where
  "parse_digits [] acc = Some acc"
| "parse_digits (c # cs) acc =
     (case digit_val c of None \<Rightarrow> None | Some d \<Rightarrow> parse_digits cs (10 * acc + d))"

definition ParseInt :: "string \<Rightarrow> int option" where
  "ParseInt s =
     (if s = '''' then None
      else
        let neg = (hd s = CHR ''-'');
            body = (if hd s = CHR ''+'' \<or> hd s = CHR ''-'' then tl s else s)
        in if body = '''' then None
           else (case parse_digits body 0 of
                   None \<Rightarrow> None
                 | Some un \<Rightarrow>
                     if \<not> neg \<and> un \<ge> 2 ^ 63 then None
                     else if neg \<and> un > 2 ^ 63 then None
                     else Some (if neg then - int un else int un)))"

section \<open>The classifier\<close>

text \<open>
  \<open>parseArg\<close> (cmdline.go, lines 245-260). The receiver is not read, so the model takes
  the token only. \<open>parts[0]\<close> always exists: \<open>SplitN\<close> returns at least one substring.
\<close>

definition parseArg :: "string \<Rightarrow> string \<times> string" where
  "parseArg arg =
     (if HasPrefix arg ''-'' then
        let parts = SplitN2 (TrimLeft arg ''-'') CHR ''='';
            name = parts ! 0;
            name' = (if name = '''' then ''???'' else name);
            val = (if length parts > 1 then parts ! 1 else '''')
        in (name', val)
      else ('''', arg))"

section \<open>The process: package variables, output, termination\<close>

text \<open>
  The package variables \<open>Program\<close> and \<open>Help\<close>, the bytes written to standard output and
  standard error, and the state of the caller (the variables the callback and the
  handlers close over) make up the \<open>world\<close>. A call either returns, or ends the process
  through \<open>os.Exit\<close> with a status.
\<close>

record 'u world =
  Program :: string
  Help :: string
  stdout :: string
  stderr :: string
  user :: 'u

datatype ('a, 'w) outcome = Exited int 'w | Returned 'a 'w

text \<open>
  The function-valued package variables \<open>ErrorFunc\<close> and \<open>HelpFunc\<close> are taken as fixed
  while a parse runs. \<open>ErrorFunc(format, args...)\<close> is modelled on the message
  \<open>fmt.Sprintf(format, args...)\<close>; every format of the package holds only \<open>%s\<close> and
  \<open>%d\<close>, written here as concatenation. The formatters \<open>FormatWarningFunc\<close> and
  \<open>FormatInfoFunc\<close> are parameters of the functions that read them.
\<close>

record 'u handlers =
  ErrorFunc :: "string \<Rightarrow> 'u world \<Rightarrow> (unit, 'u world) outcome"
  HelpFunc :: "string \<Rightarrow> 'u world \<Rightarrow> (unit, 'u world) outcome"

definition Fprintln :: "string \<Rightarrow> string" where
  "Fprintln s = s @ [NL]"

text \<open>
  \<open>ProgramMessage\<close> (lines 149-160), as the bytes it writes to \<open>fd\<close>; \<open>msg\<close> is
  \<open>fmt.Sprintf(format, args...)\<close>.
\<close>

definition ProgramMessage :: "string \<Rightarrow> (string \<Rightarrow> string) \<Rightarrow> string \<Rightarrow> string" where
  "ProgramMessage program formatLineFn msg =
     (let lines = Split msg NL;
          first = Fprintln (formatLineFn (program @ '': '' @ lines ! 0 @ [NL]))
      in if length lines > 1 then
           let indentLen = RuneCount program + 2;
               indent = replicate indentLen CHR '' ''
           in first @ concat (map (\<lambda>line. Fprintln (formatLineFn (indent @ line))) (tl lines))
         else first)"

definition Warn :: "(string \<Rightarrow> string) \<Rightarrow> string \<Rightarrow> 'u world \<Rightarrow> 'u world" where
  "Warn FormatWarningFunc msg w =
     w\<lparr>stderr := stderr w @ ProgramMessage (Program w) FormatWarningFunc msg\<rparr>"

definition Info :: "(string \<Rightarrow> string) \<Rightarrow> string \<Rightarrow> 'u world \<Rightarrow> 'u world" where
  "Info FormatInfoFunc msg w =
     w\<lparr>stdout := stdout w @ ProgramMessage (Program w) FormatInfoFunc msg\<rparr>"

definition DontFormat :: "string \<Rightarrow> string" where
  "DontFormat s = s"

definition ReturnError :: "string \<Rightarrow> 'u world \<Rightarrow> (unit, 'u world) outcome" where
  "ReturnError msg w = Returned () w"

text \<open>The hint of \<open>SyntaxError\<close>; the u-umlaut of its text is two bytes of UTF-8.\<close>

definition help_hint :: string where
  "help_hint = [NL, NL] @ ''Verwenden Sie --help f'' @ [CHR 0xC3, CHR 0xBC] @ ''r weitere Hilfe!''"

definition SyntaxError ::
  "(string \<Rightarrow> string) \<Rightarrow> string \<Rightarrow> 'u world \<Rightarrow> (unit, 'u world) outcome" where
  "SyntaxError FormatWarningFunc msg w = Exited 1 (Warn FormatWarningFunc (msg @ help_hint) w)"

definition RuntimeError ::
  "(string \<Rightarrow> string) \<Rightarrow> string \<Rightarrow> 'u world \<Rightarrow> (unit, 'u world) outcome" where
  "RuntimeError FormatWarningFunc msg w = Exited 1 (Warn FormatWarningFunc msg w)"

text \<open>\<open>FormatHelp\<close> (lines 87-110) and \<open>PrintHelp\<close> (lines 113-116).\<close>

definition FormatHelp :: "string \<Rightarrow> string" where
  "FormatHelp help =
     (let lines = map (\<lambda>line.
                    let line' = TrimSpace line
                    in if HasPrefix line' ''|'' then '' '' @ drop 1 line' else line')
                  (Split help NL);
          kept = rev (dropWhile (\<lambda>l. l = '''') (rev lines))
      in Join kept [NL])"

definition PrintHelp :: "string \<Rightarrow> 'u world \<Rightarrow> (unit, 'u world) outcome" where
  "PrintHelp help w = Exited 0 (w\<lparr>stdout := stdout w @ Fprintln (FormatHelp help)\<rparr>)"

section \<open>The parser\<close>

text \<open>
  The struct \<open>Parser\<close> (lines 167-176). \<open>err\<close> is the error value, \<open>None\<close> for \<open>nil\<close>,
  otherwise the message \<open>fmt.Errorf\<close> made.
\<close>

record Parser =
  rest :: "string list"
  argIdx :: int
  onlyArgs :: bool
  opt :: string
  strVal :: string
  intVal :: int
  grabbed :: bool
  err :: "string option"

definition popNextArg :: "Parser \<Rightarrow> string \<times> Parser" where
  "popNextArg p =
     (if rest p = [] then ('''', p)
      else (hd (rest p), p\<lparr>rest := tl (rest p)\<rparr>))"

text \<open>\<open>Errorf\<close> (lines 265-269): the handler runs first, then the error is recorded.\<close>

definition Errorf ::
  "'u handlers \<Rightarrow> string \<Rightarrow> Parser \<Rightarrow> 'u world \<Rightarrow> (Parser, 'u world) outcome" where
  "Errorf h msg p w =
     (case ErrorFunc h msg w of
        Exited c w' \<Rightarrow> Exited c w'
      | Returned _ w' \<Rightarrow> Returned (p\<lparr>err := Some msg\<rparr>) w')"

text \<open>The statement pair \<open>parser.Errorf(...); return false\<close> of the option tests.\<close>

definition fail_false ::
  "'u handlers \<Rightarrow> string \<Rightarrow> Parser \<Rightarrow> 'u world \<Rightarrow> (bool \<times> Parser, 'u world) outcome" where
  "fail_false h msg p w =
     (case Errorf h msg p w of
        Exited c w' \<Rightarrow> Exited c w'
      | Returned p' w' \<Rightarrow> Returned (False, p') w')"

text \<open>\<open>IsOpt\<close> (lines 276-290).\<close>

definition IsOpt ::
  "'u handlers \<Rightarrow> string \<Rightarrow> string \<Rightarrow> Parser \<Rightarrow> 'u world \<Rightarrow> (bool \<times> Parser, 'u world) outcome" where
  "IsOpt h long short p w =
     (if opt p \<noteq> long \<and> opt p \<noteq> short then Returned (False, p) w
      else
        let p1 = p\<lparr>opt := long\<rparr>
        in if strVal p1 \<noteq> '''' then
             fail_false h (''Option erlaubt kein Options-Argument: --'' @ opt p1) p1 w
           else Returned (True, p1\<lparr>grabbed := True\<rparr>) w)"

text \<open>\<open>IsStrOpt\<close> (lines 293-316).\<close>

definition IsStrOpt ::
  "'u handlers \<Rightarrow> string \<Rightarrow> string \<Rightarrow> Parser \<Rightarrow> 'u world \<Rightarrow> (bool \<times> Parser, 'u world) outcome" where
  "IsStrOpt h long short p w =
     (if opt p \<noteq> long \<and> opt p \<noteq> short then Returned (False, p) w
      else
        let p1 = p\<lparr>opt := long\<rparr>
        in if strVal p1 \<noteq> '''' then Returned (True, p1\<lparr>grabbed := True\<rparr>) w
           else if rest p1 \<noteq> [] then
             (case popNextArg p1 of
                (arg, p2) \<Rightarrow>
                  (case parseArg arg of
                     (name, v) \<Rightarrow>
                       if name = '''' \<and> v \<noteq> '''' then
                         Returned (True, p2\<lparr>strVal := v, grabbed := True\<rparr>) w
                       else
                         fail_false h
                           (''Option erwartet ein Options-Argument: --'' @ opt p2) p2 w))
           else fail_false h (''Option erwartet ein Options-Argument: --'' @ opt p1) p1 w)"

text \<open>
  \<open>IsIntOpt\<close> (lines 325-348). The sharp s of the two range messages is two bytes of
  UTF-8.
\<close>

definition msg_invalid_number :: "string \<Rightarrow> string \<Rightarrow> string" where
  "msg_invalid_number v name =
     ''Ung'' @ [CHR 0xC3, CHR 0xBC] @ ''ltige Zahl: '' @ v @ '' (Option --'' @ name @ '')''"

definition msg_too_small :: "int \<Rightarrow> int \<Rightarrow> string \<Rightarrow> string" where
  "msg_too_small lo v name =
     ''Zahl mu'' @ [CHR 0xC3, CHR 0x9F] @ '' >= '' @ formatInt lo @ '' sein: '' @ formatInt v
       @ '' (Option --'' @ name @ '')''"

definition msg_too_big :: "int \<Rightarrow> int \<Rightarrow> string \<Rightarrow> string" where
  "msg_too_big hi v name =
     ''Zahl mu'' @ [CHR 0xC3, CHR 0x9F] @ '' <= '' @ formatInt hi @ '' sein: '' @ formatInt v
       @ '' (Option --'' @ name @ '')''"

definition IsIntOpt ::
  "'u handlers \<Rightarrow> string \<Rightarrow> string \<Rightarrow> int \<Rightarrow> int \<Rightarrow> Parser \<Rightarrow> 'u world
     \<Rightarrow> (bool \<times> Parser, 'u world) outcome" where
  "IsIntOpt h long short lo hi p w =
     (case IsStrOpt h long short p w of
        Exited c w' \<Rightarrow> Exited c w'
      | Returned (b, p1) w1 \<Rightarrow>
          if \<not> b then Returned (False, p1) w1
          else
            (case ParseInt (strVal p1) of
               None \<Rightarrow> fail_false h (msg_invalid_number (strVal p1) (opt p1)) p1 w1
             | Some v \<Rightarrow>
                 if v < lo then fail_false h (msg_too_small lo v (opt p1)) p1 w1
                 else if v > hi then fail_false h (msg_too_big hi v (opt p1)) p1 w1
                 else Returned (True, p1\<lparr>intVal := v\<rparr>) w1))"

text \<open>The readers and positional tests (lines 319-384).\<close>

definition StrVal :: "Parser \<Rightarrow> string" where
  "StrVal p = strVal p"

definition IntVal :: "Parser \<Rightarrow> int" where
  "IntVal p = intVal p"

definition IsArg :: "Parser \<Rightarrow> bool" where
  "IsArg p = (if opt p = '''' \<and> strVal p \<noteq> '''' then True else False)"

definition ArgIdx :: "Parser \<Rightarrow> int" where
  "ArgIdx p = argIdx p"

definition IsArgN :: "Parser \<Rightarrow> int \<Rightarrow> bool" where
  "IsArgN p idx = (if argIdx p \<noteq> idx then False else IsArg p)"

definition Arg :: "Parser \<Rightarrow> string \<times> Parser" where
  "Arg p =
     (let p' = (if \<not> grabbed p then p\<lparr>grabbed := True, argIdx := argIdx p + 1\<rparr> else p)
      in (strVal p', p'))"

section \<open>The callback\<close>

text \<open>
  The callback \<open>fn func(*Parser)\<close> is code of the caller. The fields of \<open>Parser\<close> are not
  exported, so a callback reaches the parser through its exported methods only; between
  the calls it reads (\<open>Look\<close>) and changes (\<open>Own\<close>) the world: the caller's own state, the
  package variables, the output. A callback that returns is therefore a finite tree of
  method calls, each continued by the value the method returns: \<open>callback\<close>. \<open>run\<close>
  executes one invocation \<open>fn(parser)\<close>; a handler that ends the process ends it.
\<close>

datatype 'u callback =
    Done
  | Own "'u world \<Rightarrow> 'u world" "'u callback"
  | Look "'u world \<Rightarrow> 'u callback"
  | CallIsOpt string string "bool \<Rightarrow> 'u callback"
  | CallIsStrOpt string string "bool \<Rightarrow> 'u callback"
  | CallIsIntOpt string string int int "bool \<Rightarrow> 'u callback"
  | CallStrVal "string \<Rightarrow> 'u callback"
  | CallIntVal "int \<Rightarrow> 'u callback"
  | CallIsArg "bool \<Rightarrow> 'u callback"
  | CallArgIdx "int \<Rightarrow> 'u callback"
  | CallIsArgN int "bool \<Rightarrow> 'u callback"
  | CallArg "string \<Rightarrow> 'u callback"
  | CallErrorf string "'u callback"

primrec run ::
  "'u callback \<Rightarrow> 'u handlers \<Rightarrow> Parser \<Rightarrow> 'u world \<Rightarrow> (Parser, 'u world) outcome" where
  "run Done h p w = Returned p w"
| "run (Own f k) h p w = run k h p (f w)"
| "run (Look k) h p w = run (k w) h p w"
| "run (CallIsOpt long short k) h p w =
     (case IsOpt h long short p w of
        Exited c w' \<Rightarrow> Exited c w'
      | Returned (b, p') w' \<Rightarrow> run (k b) h p' w')"
| "run (CallIsStrOpt long short k) h p w =
     (case IsStrOpt h long short p w of
        Exited c w' \<Rightarrow> Exited c w'
      | Returned (b, p') w' \<Rightarrow> run (k b) h p' w')"
| "run (CallIsIntOpt long short lo hi k) h p w =
     (case IsIntOpt h long short lo hi p w of
        Exited c w' \<Rightarrow> Exited c w'
      | Returned (b, p') w' \<Rightarrow> run (k b) h p' w')"
| "run (CallStrVal k) h p w = run (k (StrVal p)) h p w"
| "run (CallIntVal k) h p w = run (k (IntVal p)) h p w"
| "run (CallIsArg k) h p w = run (k (IsArg p)) h p w"
| "run (CallArgIdx k) h p w = run (k (ArgIdx p)) h p w"
| "run (CallIsArgN idx k) h p w = run (k (IsArgN p idx)) h p w"
| "run (CallArg k) h p w = (case Arg p of (v, p') \<Rightarrow> run (k v) h p' w)"
| "run (CallErrorf msg k) h p w =
     (case Errorf h msg p w of
        Exited c w' \<Rightarrow> Exited c w'
      | Returned p' w' \<Rightarrow> run k h p' w')"

section \<open>The parse loop\<close>

text \<open>
  One turn of the loop of \<open>ParseArgs\<close> up to the call of the callback (lines 197-217):
  the next token is popped and either ends the parse (\<open>--help\<close>, or \<open>--\<close> as the last
  token) or becomes the current token of the parser the callback is given.
\<close>

datatype fetched = HelpFlag | EndOfOptions "string option" | Current Parser

definition fetch :: "Parser \<Rightarrow> fetched" where
  "fetch p =
     (case popNextArg p of
        (arg, p1) \<Rightarrow>
          if onlyArgs p1 = True then
            Current (p1\<lparr>opt := '''', strVal := arg, grabbed := False\<rparr>)
          else if arg = ''--help'' then HelpFlag
          else if arg = ''--'' then
            (if length (rest p1) = 0 then EndOfOptions (err p1)
             else
               (case popNextArg (p1\<lparr>onlyArgs := True\<rparr>) of
                  (arg', p2) \<Rightarrow>
                    (case parseArg arg' of
                       (name, v) \<Rightarrow> Current (p2\<lparr>opt := name, strVal := v, grabbed := False\<rparr>))))
          else
            (case parseArg arg of
               (name, v) \<Rightarrow> Current (p1\<lparr>opt := name, strVal := v, grabbed := False\<rparr>)))"

text \<open>The error of an unclaimed token (lines 225-231).\<close>

definition unclaimed_msg :: "Parser \<Rightarrow> string" where
  "unclaimed_msg p =
     (if opt p \<noteq> '''' then ''Unbekannte Option: --'' @ opt p else ''Zu viele Argumente!'')"

lemma popNextArg_rest:
  "popNextArg p = (arg, p1) \<Longrightarrow> rest p \<noteq> [] \<Longrightarrow> length (rest p1) < length (rest p)"
  by (auto simp: popNextArg_def)

lemma popNextArg_rest_le:
  "popNextArg p = (arg, p1) \<Longrightarrow> length (rest p1) \<le> length (rest p)"
  by (auto simp: popNextArg_def split: if_splits)

lemma fetch_rest:
  "fetch p = Current p1 \<Longrightarrow> rest p \<noteq> [] \<Longrightarrow> length (rest p1) < length (rest p)"
  by (auto simp: fetch_def popNextArg_def split: if_splits prod.splits)

lemma Errorf_rest:
  "Errorf h msg p w = Returned p' w' \<Longrightarrow> rest p' = rest p"
  by (auto simp: Errorf_def split: outcome.splits)

lemma fail_false_rest:
  "fail_false h msg p w = Returned (b, p') w' \<Longrightarrow> rest p' = rest p"
  by (auto simp: fail_false_def split: outcome.splits dest: Errorf_rest)

lemma IsOpt_rest:
  "IsOpt h long short p w = Returned (b, p') w' \<Longrightarrow> rest p' = rest p"
  by (auto simp: IsOpt_def Let_def split: if_splits dest: fail_false_rest)

lemma IsStrOpt_rest:
  "IsStrOpt h long short p w = Returned (b, p') w' \<Longrightarrow> length (rest p') \<le> length (rest p)"
  by (auto simp: IsStrOpt_def Let_def popNextArg_def split: if_splits prod.splits
      dest!: fail_false_rest)

lemma IsIntOpt_rest:
  "IsIntOpt h long short lo hi p w = Returned (b, p') w'
     \<Longrightarrow> length (rest p') \<le> length (rest p)"
  by (auto simp: IsIntOpt_def split: outcome.splits if_splits option.splits
      dest!: fail_false_rest IsStrOpt_rest)

text \<open>Induction over a callback, with the hypothesis for every value a method may return.\<close>

lemma callback_induct [case_names Done Own Look CallIsOpt CallIsStrOpt CallIsIntOpt
    CallStrVal CallIntVal CallIsArg CallArgIdx CallIsArgN CallArg CallErrorf]:
  assumes "P Done"
    and "\<And>f k. P k \<Longrightarrow> P (Own f k)"
    and "\<And>k. (\<And>w. P (k w)) \<Longrightarrow> P (Look k)"
    and "\<And>long short k. (\<And>b. P (k b)) \<Longrightarrow> P (CallIsOpt long short k)"
    and "\<And>long short k. (\<And>b. P (k b)) \<Longrightarrow> P (CallIsStrOpt long short k)"
    and "\<And>long short lo hi k. (\<And>b. P (k b)) \<Longrightarrow> P (CallIsIntOpt long short lo hi k)"
    and "\<And>k. (\<And>v. P (k v)) \<Longrightarrow> P (CallStrVal k)"
    and "\<And>k. (\<And>i. P (k i)) \<Longrightarrow> P (CallIntVal k)"
    and "\<And>k. (\<And>b. P (k b)) \<Longrightarrow> P (CallIsArg k)"
    and "\<And>k. (\<And>i. P (k i)) \<Longrightarrow> P (CallArgIdx k)"
    and "\<And>idx k. (\<And>b. P (k b)) \<Longrightarrow> P (CallIsArgN idx k)"
    and "\<And>k. (\<And>v. P (k v)) \<Longrightarrow> P (CallArg k)"
    and "\<And>msg k. P k \<Longrightarrow> P (CallErrorf msg k)"
  shows "P fn"
  by (induction fn) (auto intro: assms)

text \<open>
  A relation between the parser before and after that every method keeps, and that is
  reflexive and transitive, is kept by a whole invocation of the callback.
\<close>

lemma run_preserves:
  assumes refl: "\<And>p. R p p"
    and trans: "\<And>a b c. R a b \<Longrightarrow> R b c \<Longrightarrow> R a c"
    and isopt: "\<And>long short p w b p' w'. IsOpt h long short p w = Returned (b, p') w' \<Longrightarrow> R p p'"
    and isstr: "\<And>long short p w b p' w'. IsStrOpt h long short p w = Returned (b, p') w' \<Longrightarrow> R p p'"
    and isint: "\<And>long short lo hi p w b p' w'.
                  IsIntOpt h long short lo hi p w = Returned (b, p') w' \<Longrightarrow> R p p'"
    and arg: "\<And>p. R p (snd (Arg p))"
    and errorf: "\<And>msg p w p' w'. Errorf h msg p w = Returned p' w' \<Longrightarrow> R p p'"
  shows "run fn h p w = Returned p' w' \<Longrightarrow> R p p'"
proof (induction fn arbitrary: p w rule: callback_induct)
  case Done
  then show ?case by (simp add: refl)
next
  case (CallIsOpt long short k)
  then obtain b p1 w1 where s: "IsOpt h long short p w = Returned (b, p1) w1"
    and r: "run (k b) h p1 w1 = Returned p' w'"
    by (auto split: outcome.splits prod.splits)
  show ?case
    by (rule trans[OF isopt[OF s] CallIsOpt.IH[OF r]])
next
  case (CallIsStrOpt long short k)
  then obtain b p1 w1 where s: "IsStrOpt h long short p w = Returned (b, p1) w1"
    and r: "run (k b) h p1 w1 = Returned p' w'"
    by (auto split: outcome.splits prod.splits)
  show ?case
    by (rule trans[OF isstr[OF s] CallIsStrOpt.IH[OF r]])
next
  case (CallIsIntOpt long short lo hi k)
  then obtain b p1 w1 where s: "IsIntOpt h long short lo hi p w = Returned (b, p1) w1"
    and r: "run (k b) h p1 w1 = Returned p' w'"
    by (auto split: outcome.splits prod.splits)
  show ?case
    by (rule trans[OF isint[OF s] CallIsIntOpt.IH[OF r]])
next
  case (CallArg k)
  then have r: "run (k (fst (Arg p))) h (snd (Arg p)) w = Returned p' w'"
    by (simp add: case_prod_beta)
  show ?case
    by (rule trans[OF arg CallArg.IH[OF r]])
next
  case (CallErrorf msg k)
  then obtain p1 w1 where s: "Errorf h msg p w = Returned p1 w1"
    and r: "run k h p1 w1 = Returned p' w'"
    by (auto split: outcome.splits)
  show ?case
    by (rule trans[OF errorf[OF s] CallErrorf.IH[OF r]])
qed auto

lemma run_rest:
  "run fn h p w = Returned p' w' \<Longrightarrow> length (rest p') \<le> length (rest p)"
proof (rule run_preserves[where R = "\<lambda>a b. length (rest b) \<le> length (rest a)"])
  show "\<And>long short p w b p' w'.
      IsOpt h long short p w = Returned (b, p') w' \<Longrightarrow> length (rest p') \<le> length (rest p)"
    by (simp add: IsOpt_rest)
  show "\<And>long short p w b p' w'.
      IsStrOpt h long short p w = Returned (b, p') w' \<Longrightarrow> length (rest p') \<le> length (rest p)"
    by (rule IsStrOpt_rest)
  show "\<And>long short lo hi p w b p' w'.
      IsIntOpt h long short lo hi p w = Returned (b, p') w'
        \<Longrightarrow> length (rest p') \<le> length (rest p)"
    by (rule IsIntOpt_rest)
  show "\<And>p. length (rest (snd (Arg p))) \<le> length (rest p)"
    by (simp add: Arg_def Let_def)
  show "\<And>msg p w p' w'. Errorf h msg p w = Returned p' w' \<Longrightarrow> length (rest p') \<le> length (rest p)"
    by (simp add: Errorf_rest)
qed auto

text \<open>
  The loop of \<open>ParseArgs\<close> (lines 196-233). It ends: every turn pops a token, and no
  method gives one back.
\<close>

function loop ::
  "'u callback \<Rightarrow> 'u handlers \<Rightarrow> Parser \<Rightarrow> 'u world \<Rightarrow> (string option, 'u world) outcome" where
  "loop fn h p w =
     (if \<not> length (rest p) > 0 then Returned None w
      else
        (case fetch p of
           HelpFlag \<Rightarrow>
             (case HelpFunc h (Help w) w of
                Exited c w' \<Rightarrow> Exited c w'
              | Returned _ w' \<Rightarrow> Returned None w')
         | EndOfOptions e \<Rightarrow> Returned e w
         | Current p1 \<Rightarrow>
             (case run fn h p1 w of
                Exited c w' \<Rightarrow> Exited c w'
              | Returned p2 w' \<Rightarrow>
                  if err p2 \<noteq> None then Returned (err p2) w'
                  else if \<not> grabbed p2 then
                    (case Errorf h (unclaimed_msg p2) p2 w' of
                       Exited c w'' \<Rightarrow> Exited c w''
                     | Returned p3 w'' \<Rightarrow> Returned (err p3) w'')
                  else loop fn h p2 w')))"
  by pat_completeness auto
termination
proof (relation "measure (\<lambda>(fn, h, p, w). length (rest p))")
  show "wf (measure (\<lambda>(fn, h, p, w). length (rest p)))"
    by simp
next
  fix fn :: "'u callback" and h :: "'u handlers" and p p1 p2 :: Parser
    and w w' :: "'u world"
  assume "\<not> \<not> 0 < length (rest p)" and f: "fetch p = Current p1"
    and r: "run fn h p1 w = Returned p2 w'"
  then have "length (rest p1) < length (rest p)"
    using fetch_rest[OF f] by simp
  moreover have "length (rest p2) \<le> length (rest p1)"
    using run_rest[OF r] .
  ultimately show "((fn, h, p2, w'), (fn, h, p, w)) \<in> measure (\<lambda>(fn, h, p, w). length (rest p))"
    by simp
qed

text \<open>\<open>ParseArgs\<close> (lines 186-234).\<close>

definition ParseArgs ::
  "string list \<Rightarrow> 'u callback \<Rightarrow> 'u handlers \<Rightarrow> 'u world \<Rightarrow> (string option, 'u world) outcome" where
  "ParseArgs argv fn h w =
     (let w1 = (if length argv > 0 \<and> Program w = '''' then w\<lparr>Program := Base (argv ! 0)\<rparr>
                else w);
          argv1 = (if length argv > 0 then tl argv else argv);
          parser = \<lparr>rest = argv1, argIdx = 0, onlyArgs = False, opt = '''', strVal = '''',
                     intVal = 0, grabbed = False, err = None\<rparr>
      in loop fn h parser w1)"

declare loop.simps [simp del]

section \<open>The callback and the handlers of the package's tests\<close>

text \<open>
  \<open>parse_cmdline\<close> of the test file: the handlers \<open>ErrorFunc = ReturnError\<close> and a
  \<open>HelpFunc\<close> that stores the help text, and the callback with its five cases. The
  argument vector is given as the fields of the test's string. The fields \<open>help\<close> and
  \<open>file\<close> of the test's \<open>Opts\<close> are named \<open>help_text\<close> and \<open>file_name\<close> here.
\<close>

record Opts =
  verbose :: bool
  help_text :: string
  file_name :: string
  level :: int
  cmd :: string
  args :: "string list"

definition set_opts :: "(Opts \<Rightarrow> Opts) \<Rightarrow> Opts world \<Rightarrow> Opts world" where
  "set_opts f w = w\<lparr>user := f (user w)\<rparr>"

definition test_fn :: "Opts callback" where
  "test_fn =
     CallIsOpt ''verbose'' ''v'' (\<lambda>b. if b then Own (set_opts (\<lambda>u. u\<lparr>verbose := True\<rparr>)) Done else
     CallIsStrOpt ''file'' ''f'' (\<lambda>b. if b then
       CallStrVal (\<lambda>s. Own (set_opts (\<lambda>u. u\<lparr>file_name := s\<rparr>)) Done) else
     CallIsIntOpt ''level'' ''l'' 0 3 (\<lambda>b. if b then
       CallIntVal (\<lambda>i. Own (set_opts (\<lambda>u. u\<lparr>level := i\<rparr>)) Done) else
     CallIsArgN 0 (\<lambda>b. if b then CallArg (\<lambda>s. Own (set_opts (\<lambda>u. u\<lparr>cmd := s\<rparr>)) Done) else
     CallIsArg (\<lambda>b. if \<not> b then Done else
     CallArgIdx (\<lambda>i. if i < 3 then
       CallArg (\<lambda>s. Own (set_opts (\<lambda>u. u\<lparr>args := args u @ [s]\<rparr>)) Done)
                  else Done))))))"

definition test_handlers :: "Opts handlers" where
  "test_handlers =
     \<lparr>ErrorFunc = ReturnError,
      HelpFunc = (\<lambda>t w. Returned () (w\<lparr>user := (user w)\<lparr>help_text := t\<rparr>\<rparr>))\<rparr>"

definition no_opts :: Opts where
  "no_opts = \<lparr>verbose = False, help_text = '''', file_name = '''', level = 0, cmd = '''', args = []\<rparr>"

definition test_world :: "Opts world" where
  "test_world =
     \<lparr>Program = '''', Help = ''Verwendung: cmdline [OPTS]'', stdout = '''', stderr = '''',
      user = no_opts\<rparr>"

definition parse_cmdline :: "string list \<Rightarrow> (string option, Opts world) outcome" where
  "parse_cmdline argv = ParseArgs argv test_fn test_handlers test_world"

text \<open>
  A parser whose current token is classified as \<open>(name, v)\<close>, not claimed, with the
  tokens \<open>ts\<close> still to come; and the world the tests start from with another help text.
\<close>

definition current :: "string \<Rightarrow> string \<Rightarrow> string list \<Rightarrow> Parser" where
  "current name v ts =
     \<lparr>rest = ts, argIdx = 0, onlyArgs = False, opt = name, strVal = v, intVal = 0,
      grabbed = False, err = None\<rparr>"

section \<open>Notions of the proofs\<close>

text \<open>
  After any number of method calls the token is claimed, or an error is recorded, or the
  parser is as it was.
\<close>

definition settled :: "Parser \<Rightarrow> Parser \<Rightarrow> bool" where
  "settled a b = (grabbed b \<or> err b \<noteq> None \<or> b = a)"

text \<open>
  A call that raises the error \<open>msg\<close> from parser \<open>p\<close> and world \<open>w\<close> and returns
  false: the handler is given the message; if it ends the process, so does the call;
  if it returns, the error is recorded in the parser.
\<close>

definition raises ::
  "'u handlers \<Rightarrow> string \<Rightarrow> Parser \<Rightarrow> 'u world \<Rightarrow> (bool \<times> Parser, 'u world) outcome \<Rightarrow> bool" where
  "raises h msg p w r =
     (r = (case ErrorFunc h msg w of
             Exited c w' \<Rightarrow> Exited c w'
           | Returned u w' \<Rightarrow> Returned (False, p\<lparr>err := Some msg\<rparr>) w'))"

text \<open>
  Within one invocation of the callback the positional index stays as it is, or the token
  goes from unclaimed to claimed and the index grows by one.
\<close>

definition index_step :: "Parser \<Rightarrow> Parser \<Rightarrow> bool" where
  "index_step a b =
     (if argIdx b = argIdx a then grabbed a \<le> grabbed b
      else \<not> grabbed a \<and> grabbed b \<and> argIdx b = argIdx a + 1)"

text \<open>
  A callback that claims positional tokens only after \<open>IsArg()\<close> or \<open>IsArgN(idx)\<close> has
  returned true in the same invocation (\<open>ok\<close> records that), that tests options under
  non-empty names only, and that raises no error of its own.
\<close>

primrec claims_by_tests :: "'u callback \<Rightarrow> bool \<Rightarrow> bool" where
  "claims_by_tests Done ok = True"
| "claims_by_tests (Own f k) ok = claims_by_tests k ok"
| "claims_by_tests (Look k) ok = (\<forall>w. claims_by_tests (k w) ok)"
| "claims_by_tests (CallIsOpt long short k) ok =
     (long \<noteq> '''' \<and> short \<noteq> '''' \<and> (\<forall>b. claims_by_tests (k b) ok))"
| "claims_by_tests (CallIsStrOpt long short k) ok =
     (long \<noteq> '''' \<and> short \<noteq> '''' \<and> (\<forall>b. claims_by_tests (k b) ok))"
| "claims_by_tests (CallIsIntOpt long short lo hi k) ok =
     (long \<noteq> '''' \<and> short \<noteq> '''' \<and> (\<forall>b. claims_by_tests (k b) ok))"
| "claims_by_tests (CallStrVal k) ok = (\<forall>v. claims_by_tests (k v) ok)"
| "claims_by_tests (CallIntVal k) ok = (\<forall>i. claims_by_tests (k i) ok)"
| "claims_by_tests (CallIsArg k) ok =
     (claims_by_tests (k True) True \<and> claims_by_tests (k False) ok)"
| "claims_by_tests (CallArgIdx k) ok = (\<forall>i. claims_by_tests (k i) ok)"
| "claims_by_tests (CallIsArgN idx k) ok =
     (claims_by_tests (k True) True \<and> claims_by_tests (k False) ok)"
| "claims_by_tests (CallArg k) ok = (ok \<and> (\<forall>v. claims_by_tests (k v) ok))"
| "claims_by_tests (CallErrorf msg k) ok = False"

text \<open>
  A callback for an option without a short form, tested under the empty short name, and
  for positional arguments claimed after \<open>IsArg()\<close>.
\<close>

definition no_short_fn :: "Opts callback" where
  "no_short_fn =
     CallIsOpt ''verbose'' '''' (\<lambda>b. if b then Own (set_opts (\<lambda>u. u\<lparr>verbose := True\<rparr>)) Done else
     CallIsArg (\<lambda>b. if b then
       CallArg (\<lambda>s. Own (set_opts (\<lambda>u. u\<lparr>args := args u @ [s]\<rparr>)) Done)
                 else Done))"

section \<open>Properties of the classifier\<close>

lemma HasPrefix_dash: "HasPrefix s ''-'' = (\<exists>t. s = CHR ''-'' # t)"
  by (cases s) (auto simp: HasPrefix_def)

lemma TrimLeft_dashes:
  "\<not> HasPrefix name ''-'' \<Longrightarrow> TrimLeft (replicate n CHR ''-'' @ name) ''-'' = name"
proof (induction n)
  case 0
  then show ?case by (cases name) (auto simp: TrimLeft_def HasPrefix_dash)
next
  case (Suc n)
  then show ?case by (simp add: TrimLeft_def)
qed

lemma HasPrefix_dashes:
  "0 < n \<Longrightarrow> HasPrefix (replicate n CHR ''-'' @ t) ''-''"
  by (cases n) (simp_all add: HasPrefix_dash)

lemma SplitN2_no_sep: "sep \<notin> set s \<Longrightarrow> SplitN2 s sep = [s]"
  by (simp add: SplitN2_def)

lemma SplitN2_sep:
  "sep \<notin> set a \<Longrightarrow> SplitN2 (a @ sep # b) sep = [a, b]"
proof -
  assume h: "sep \<notin> set a"
  have "takeWhile (\<lambda>c. c \<noteq> sep) (a @ sep # b) = a"
    using h by (induction a) auto
  moreover have "dropWhile (\<lambda>c. c \<noteq> sep) (a @ sep # b) = sep # b"
    using h by (induction a) auto
  ultimately show ?thesis by (simp add: SplitN2_def)
qed

lemma dashes_split:
  "\<exists>n name. \<not> HasPrefix name ''-'' \<and> arg = replicate n CHR ''-'' @ name"
proof (induction arg)
  case Nil
  have "\<not> HasPrefix [] ''-'' \<and> [] = replicate 0 CHR ''-'' @ []"
    by (simp add: HasPrefix_dash)
  then show ?case by (intro exI)
next
  case (Cons c cs)
  then obtain n name where ih: "\<not> HasPrefix name ''-''" "cs = replicate n CHR ''-'' @ name"
    by (elim exE conjE)
  show ?case
  proof (cases "c = CHR ''-''")
    case True
    with ih have "\<not> HasPrefix name ''-'' \<and> c # cs = replicate (Suc n) CHR ''-'' @ name"
      by simp
    then show ?thesis by (intro exI)
  next
    case False
    then have "\<not> HasPrefix (c # cs) ''-'' \<and> c # cs = replicate 0 CHR ''-'' @ (c # cs)"
      by (simp add: HasPrefix_dash)
    then show ?thesis by (intro exI)
  qed
qed

lemma dashes_decompose:
  "HasPrefix arg ''-'' \<Longrightarrow>
     \<exists>n name. 0 < n \<and> \<not> HasPrefix name ''-'' \<and> arg = replicate n CHR ''-'' @ name"
proof -
  assume h: "HasPrefix arg ''-''"
  obtain n name where d: "\<not> HasPrefix name ''-''" "arg = replicate n CHR ''-'' @ name"
    using dashes_split[of arg] by (elim exE conjE)
  have "0 < n"
  proof (rule ccontr)
    assume "\<not> 0 < n"
    with d(2) have "arg = name" by simp
    with h d(1) show False by simp
  qed
  with d have "0 < n \<and> \<not> HasPrefix name ''-'' \<and> arg = replicate n CHR ''-'' @ name"
    by simp
  then show ?thesis by (intro exI)
qed

lemma name_value_decompose:
  "\<exists>name. CHR ''='' \<notin> set name \<and> (r = name \<or> (\<exists>v. r = name @ CHR ''='' # v))"
proof (cases "CHR ''='' \<in> set r")
  case True
  then obtain a b where "r = a @ CHR ''='' # b" "CHR ''='' \<notin> set a"
    by (meson split_list_first)
  then show ?thesis by blast
next
  case False
  then show ?thesis by blast
qed

text \<open>
  Claim C2. A token that does not start with \<open>-\<close> is classified as the empty option name
  and the token itself as value. A token of \<open>n > 0\<close> dashes followed by a name (not
  starting with a dash, holding no \<open>=\<close>) is classified as that name with the empty
  value, and followed by \<open>=\<close> and a value, as that name and that value (everything after
  the first \<open>=\<close>); an empty name is replaced by \<open>???\<close>. Every token that starts with
  \<open>-\<close> has one of these two shapes. The classifier is a function of the token alone.
\<close>

theorem parseArg_classifies:
  "(\<not> HasPrefix arg ''-'' \<longrightarrow> parseArg arg = ('''', arg)) \<and>
   (0 < n \<and> \<not> HasPrefix name ''-'' \<and> CHR ''='' \<notin> set name \<longrightarrow>
      parseArg (replicate n CHR ''-'' @ name)
        = (if name = '''' then ''???'' else name, '''') \<and>
      parseArg (replicate n CHR ''-'' @ name @ CHR ''='' # v)
        = (if name = '''' then ''???'' else name, v)) \<and>
   (HasPrefix arg ''-'' \<longrightarrow>
      (\<exists>k nm. 0 < k \<and> \<not> HasPrefix nm ''-'' \<and> CHR ''='' \<notin> set nm \<and>
         (arg = replicate k CHR ''-'' @ nm \<or>
          (\<exists>w. arg = replicate k CHR ''-'' @ nm @ CHR ''='' # w))))"
proof (intro conjI impI)
  assume "\<not> HasPrefix arg ''-''"
  then show "parseArg arg = ('''', arg)"
    by (simp add: parseArg_def)
next
  assume h: "0 < n \<and> \<not> HasPrefix name ''-'' \<and> CHR ''='' \<notin> set name"
  then show "parseArg (replicate n CHR ''-'' @ name)
      = (if name = '''' then ''???'' else name, '''')"
    by (simp add: parseArg_def HasPrefix_dashes TrimLeft_dashes SplitN2_no_sep Let_def)
next
  assume h: "0 < n \<and> \<not> HasPrefix name ''-'' \<and> CHR ''='' \<notin> set name"
  then have p: "\<not> HasPrefix (name @ CHR ''='' # v) ''-''"
    by (cases name) (auto simp: HasPrefix_dash)
  from h show "parseArg (replicate n CHR ''-'' @ name @ CHR ''='' # v)
      = (if name = '''' then ''???'' else name, v)"
    by (simp add: parseArg_def HasPrefix_dashes TrimLeft_dashes[OF p] SplitN2_sep Let_def)
next
  assume h: "HasPrefix arg ''-''"
  obtain k r where k: "0 < k" "\<not> HasPrefix r ''-''" "arg = replicate k CHR ''-'' @ r"
    using dashes_decompose[OF h] by (elim exE conjE)
  obtain nm where nm: "CHR ''='' \<notin> set nm" "r = nm \<or> (\<exists>w. r = nm @ CHR ''='' # w)"
    using name_value_decompose[of r] by (elim exE conjE)
  have p: "\<not> HasPrefix nm ''-''"
    using k(2) nm(2) by (cases nm) (auto simp: HasPrefix_dash)
  have "arg = replicate k CHR ''-'' @ nm \<or> (\<exists>w. arg = replicate k CHR ''-'' @ nm @ CHR ''='' # w)"
    using nm(2) unfolding k(3) by simp
  with k(1) p nm(1) have "0 < k \<and> \<not> HasPrefix nm ''-'' \<and> CHR ''='' \<notin> set nm \<and>
         (arg = replicate k CHR ''-'' @ nm \<or>
          (\<exists>w. arg = replicate k CHR ''-'' @ nm @ CHR ''='' # w))"
    by (intro conjI)
  then show "\<exists>k nm. 0 < k \<and> \<not> HasPrefix nm ''-'' \<and> CHR ''='' \<notin> set nm \<and>
         (arg = replicate k CHR ''-'' @ nm \<or>
          (\<exists>w. arg = replicate k CHR ''-'' @ nm @ CHR ''='' # w))"
    by (intro exI)
qed

theorem parseArg_classifies_witness:
  "parseArg ''cmd'' = ('''', ''cmd'') \<and>
   parseArg ''--level'' = (''level'', '''') \<and>
   parseArg ''--level=2'' = (''level'', ''2'') \<and>
   (\<exists>k nm. 0 < k \<and> \<not> HasPrefix nm ''-'' \<and> CHR ''='' \<notin> set nm \<and>
         (''--level=2'' = replicate k CHR ''-'' @ nm \<or>
          (\<exists>w. ''--level=2'' = replicate k CHR ''-'' @ nm @ CHR ''='' # w)))"
proof -
  have p1: "\<not> HasPrefix ''cmd'' ''-''"
    by (simp add: HasPrefix_def)
  have p2: "0 < (2::nat) \<and> \<not> HasPrefix ''level'' ''-'' \<and> CHR ''='' \<notin> set ''level''"
    by (simp add: HasPrefix_def)
  have p3: "HasPrefix ''--level=2'' ''-''"
    by (simp add: HasPrefix_def)
  note t = parseArg_classifies[of "''cmd''" 2 "''level''" "''2''"]
  note u = parseArg_classifies[of "''--level=2''" 2 "''level''" "''2''"]
  have a: "parseArg ''cmd'' = ('''', ''cmd'')"
    using t[THEN conjunct1] p1 by (rule mp)
  have "parseArg (replicate 2 CHR ''-'' @ ''level'') = (''level'', '''') \<and>
        parseArg (replicate 2 CHR ''-'' @ ''level'' @ CHR ''='' # ''2'') = (''level'', ''2'')"
    using mp[OF t[THEN conjunct2, THEN conjunct1] p2] by simp
  then have b: "parseArg ''--level'' = (''level'', '''')"
    and c: "parseArg ''--level=2'' = (''level'', ''2'')"
    by (simp_all add: numeral_2_eq_2)
  note d = mp[OF u[THEN conjunct2, THEN conjunct2] p3]
  show ?thesis
    by (intro conjI) (rule a, rule b, rule c, rule d)
qed

section \<open>Integers as text\<close>

text \<open>
  The model of \<open>strconv.ParseInt\<close> reads back what \<open>%d\<close> prints, for every integer of
  64 signed bits, and returns no integer outside that range.
\<close>

lemma digit_val_digit: "k < 10 \<Longrightarrow> digit_val (''0123456789'' ! k) = Some k"
proof -
  assume "k < 10"
  then have "k \<in> {0, 1, 2, 3, 4, 5, 6, 7, 8, 9}"
    by auto
  then show ?thesis
    by (auto simp: digit_val_def)
qed

lemma parse_digits_append:
  "parse_digits (xs @ ys) acc =
     (case parse_digits xs acc of None \<Rightarrow> None | Some a \<Rightarrow> parse_digits ys a)"
  by (induction xs arbitrary: acc) (auto split: option.splits)

lemma parse_digits_digits: "parse_digits (digits n) 0 = Some n"
proof (induction n rule: digits.induct)
  case (1 n)
  show ?case
  proof (cases "n < 10")
    case True
    then show ?thesis
      by (subst digits.simps) (simp add: digit_val_digit)
  next
    case False
    with 1 have "parse_digits (digits (n div 10)) 0 = Some (n div 10)"
      by simp
    with False show ?thesis
      by (subst digits.simps) (simp add: parse_digits_append digit_val_digit)
  qed
qed

lemma digits_hd: "digits n \<noteq> [] \<and> hd (digits n) \<in> set ''0123456789''"
proof (induction n rule: digits.induct)
  case (1 n)
  show ?case
  proof (cases "n < 10")
    case True
    then have "n \<in> {0, 1, 2, 3, 4, 5, 6, 7, 8, 9}"
      by auto
    then show ?thesis
      by (subst (1 2) digits.simps) auto
  next
    case False
    with 1 show ?thesis
      by (subst (1 2) digits.simps) simp
  qed
qed

lemma ParseInt_formatInt:
  "- (2 ^ 63) \<le> v \<Longrightarrow> v < 2 ^ 63 \<Longrightarrow> ParseInt (formatInt v) = Some v"
proof -
  assume lo: "- (2 ^ 63) \<le> v" and hi: "v < 2 ^ 63"
  show ?thesis
  proof (cases "v < 0")
    case True
    have "nat (- v) \<le> 2 ^ 63"
      using lo by simp
    with True show ?thesis
      using parse_digits_digits[of "nat (- v)"] digits_hd[of "nat (- v)"]
      by (simp add: ParseInt_def formatInt_def)
  next
    case False
    have d: "hd (digits (nat v)) \<noteq> CHR ''-'' \<and> hd (digits (nat v)) \<noteq> CHR ''+''"
      using digits_hd[of "nat v"] by auto
    have "nat v < 2 ^ 63"
      using hi False by simp
    with False d show ?thesis
      using parse_digits_digits[of "nat v"] digits_hd[of "nat v"]
      by (simp add: ParseInt_def formatInt_def)
  qed
qed

lemma ParseInt_range: "ParseInt s = Some v \<Longrightarrow> - (2 ^ 63) \<le> v \<and> v < 2 ^ 63"
  by (auto simp: ParseInt_def Let_def split: if_splits option.splits)

section \<open>The option tests\<close>

text \<open>
  Claim C6. \<open>IsOpt(long, short)\<close> returns false and changes nothing when the current
  option name is neither \<open>long\<close> nor \<open>short\<close>. On a match the stored name becomes
  \<open>long\<close>; with an empty value the token is claimed and the result is true; with a
  non-empty value the error "Option erlaubt kein Options-Argument: --long" is raised
  (handed to the error handler and, if that returns, recorded), the token is not claimed
  and the result is false.
\<close>

theorem IsOpt_spec:
  "(opt p \<noteq> long \<and> opt p \<noteq> short \<longrightarrow> IsOpt h long short p w = Returned (False, p) w) \<and>
   ((opt p = long \<or> opt p = short) \<and> strVal p = '''' \<longrightarrow>
      IsOpt h long short p w = Returned (True, p\<lparr>opt := long, grabbed := True\<rparr>) w) \<and>
   ((opt p = long \<or> opt p = short) \<and> strVal p \<noteq> '''' \<longrightarrow>
      (ErrorFunc h (''Option erlaubt kein Options-Argument: --'' @ long) w = Returned () w' \<longrightarrow>
         IsOpt h long short p w
           = Returned (False, p\<lparr>opt := long,
                  err := Some (''Option erlaubt kein Options-Argument: --'' @ long)\<rparr>) w') \<and>
      (ErrorFunc h (''Option erlaubt kein Options-Argument: --'' @ long) w = Exited c w' \<longrightarrow>
         IsOpt h long short p w = Exited c w'))"
  by (auto simp: IsOpt_def Let_def fail_false_def Errorf_def)

theorem IsOpt_spec_witness:
  "IsOpt test_handlers ''verbose'' ''v'' (current ''file'' '''' []) test_world
     = Returned (False, current ''file'' '''' []) test_world \<and>
   IsOpt test_handlers ''verbose'' ''v'' (current ''v'' '''' []) test_world
     = Returned (True, (current ''v'' '''' [])\<lparr>opt := ''verbose'', grabbed := True\<rparr>) test_world \<and>
   IsOpt test_handlers ''verbose'' ''v'' (current ''verbose'' ''file1'' []) test_world
     = Returned (False, (current ''verbose'' ''file1'' [])\<lparr>opt := ''verbose'',
          err := Some ''Option erlaubt kein Options-Argument: --verbose''\<rparr>) test_world \<and>
   IsOpt \<lparr>ErrorFunc = SyntaxError DontFormat, HelpFunc = PrintHelp\<rparr> ''verbose'' ''v''
       (current ''verbose'' ''file1'' []) test_world
     = Exited 1 (Warn DontFormat
         (''Option erlaubt kein Options-Argument: --verbose'' @ help_hint) test_world)"
proof -
  have a: "IsOpt test_handlers ''verbose'' ''v'' (current ''file'' '''' []) test_world
     = Returned (False, current ''file'' '''' []) test_world"
    using IsOpt_spec[of "current ''file'' '''' []" "''verbose''" "''v''" test_handlers test_world]
    by (simp add: current_def)
  have b: "IsOpt test_handlers ''verbose'' ''v'' (current ''v'' '''' []) test_world
     = Returned (True, (current ''v'' '''' [])\<lparr>opt := ''verbose'', grabbed := True\<rparr>) test_world"
    using IsOpt_spec[of "current ''v'' '''' []" "''verbose''" "''v''" test_handlers test_world]
    by (simp add: current_def)
  have c: "IsOpt test_handlers ''verbose'' ''v'' (current ''verbose'' ''file1'' []) test_world
     = Returned (False, (current ''verbose'' ''file1'' [])\<lparr>opt := ''verbose'',
          err := Some ''Option erlaubt kein Options-Argument: --verbose''\<rparr>) test_world"
    using IsOpt_spec[of "current ''verbose'' ''file1'' []" "''verbose''" "''v''" test_handlers
        test_world test_world]
    by (simp add: current_def test_handlers_def ReturnError_def)
  have d: "IsOpt \<lparr>ErrorFunc = SyntaxError DontFormat, HelpFunc = PrintHelp\<rparr> ''verbose'' ''v''
       (current ''verbose'' ''file1'' []) test_world
     = Exited 1 (Warn DontFormat
         (''Option erlaubt kein Options-Argument: --verbose'' @ help_hint) test_world)"
    using IsOpt_spec[of "current ''verbose'' ''file1'' []" "''verbose''" "''v''"
        "\<lparr>ErrorFunc = SyntaxError DontFormat, HelpFunc = PrintHelp\<rparr>" test_world
        "Warn DontFormat (''Option erlaubt kein Options-Argument: --verbose'' @ help_hint)
           test_world" 1]
    by (simp add: current_def SyntaxError_def)
  show ?thesis
    by (intro conjI) (rule a, rule b, rule c, rule d)
qed

text \<open>
  Claim C3. Let the current option name be \<open>long\<close> or \<open>short\<close>. With a non-empty value
  \<open>IsStrOpt(long, short)\<close> claims the token and keeps that value. With an empty value and
  a next token that classifies as the empty option name and a non-empty value, the next
  token is consumed, its value becomes the option's value and the token is claimed. With
  an empty value and no next token, or a next token that classifies as an option name or
  as an empty value, the error "Option erwartet ein Options-Argument: --long" is raised,
  the token is not claimed and the result is false.
\<close>

theorem IsStrOpt_spec:
  assumes "opt p = long \<or> opt p = short"
  shows
  "(strVal p \<noteq> '''' \<longrightarrow>
      IsStrOpt h long short p w = Returned (True, p\<lparr>opt := long, grabbed := True\<rparr>) w) \<and>
   (strVal p = '''' \<and> rest p = t # ts \<and> parseArg t = ('''', v) \<and> v \<noteq> '''' \<longrightarrow>
      IsStrOpt h long short p w
        = Returned (True, p\<lparr>opt := long, rest := ts, strVal := v, grabbed := True\<rparr>) w) \<and>
   (strVal p = '''' \<and>
      (rest p = [] \<or> (rest p = t # ts \<and> (fst (parseArg t) \<noteq> '''' \<or> snd (parseArg t) = ''''))) \<longrightarrow>
      (ErrorFunc h (''Option erwartet ein Options-Argument: --'' @ long) w = Returned () w' \<longrightarrow>
         IsStrOpt h long short p w
           = Returned (False, p\<lparr>opt := long, rest := tl (rest p),
                  err := Some (''Option erwartet ein Options-Argument: --'' @ long)\<rparr>) w') \<and>
      (ErrorFunc h (''Option erwartet ein Options-Argument: --'' @ long) w = Exited c w' \<longrightarrow>
         IsStrOpt h long short p w = Exited c w'))"
  using assms
  by (auto simp: IsStrOpt_def Let_def fail_false_def Errorf_def popNextArg_def split: prod.splits)

theorem IsStrOpt_spec_witness:
  "IsStrOpt test_handlers ''file'' ''f'' (current ''file'' ''file.txt'' [''cmd'']) test_world
     = Returned (True, (current ''file'' ''file.txt'' [''cmd''])\<lparr>grabbed := True\<rparr>) test_world \<and>
   IsStrOpt test_handlers ''file'' ''f'' (current ''f'' '''' [''file.txt'', ''cmd'']) test_world
     = Returned (True, (current ''file'' ''file.txt'' [''cmd''])\<lparr>grabbed := True\<rparr>) test_world \<and>
   IsStrOpt test_handlers ''file'' ''f'' (current ''file'' '''' [''--verbose'', ''cmd'']) test_world
     = Returned (False, (current ''file'' '''' [''cmd''])
          \<lparr>err := Some ''Option erwartet ein Options-Argument: --file''\<rparr>) test_world \<and>
   IsStrOpt test_handlers ''file'' ''f'' (current ''file'' '''' []) test_world
     = Returned (False, (current ''file'' '''' [])
          \<lparr>err := Some ''Option erwartet ein Options-Argument: --file''\<rparr>) test_world"
proof -
  have pa: "parseArg ''file.txt'' = ('''', ''file.txt'')"
    "parseArg ''--verbose'' = (''verbose'', '''')"
    by (simp_all add: parseArg_def HasPrefix_def TrimLeft_def SplitN2_def)
  have a: "IsStrOpt test_handlers ''file'' ''f'' (current ''file'' ''file.txt'' [''cmd'']) test_world
     = Returned (True, (current ''file'' ''file.txt'' [''cmd''])\<lparr>grabbed := True\<rparr>) test_world"
    using IsStrOpt_spec[where p = "current ''file'' ''file.txt'' [''cmd'']" and long = "''file''"
        and short = "''f''" and h = test_handlers and w = test_world]
    by (simp add: current_def)
  have b: "IsStrOpt test_handlers ''file'' ''f'' (current ''f'' '''' [''file.txt'', ''cmd'']) test_world
     = Returned (True, (current ''file'' ''file.txt'' [''cmd''])\<lparr>grabbed := True\<rparr>) test_world"
    using IsStrOpt_spec[where p = "current ''f'' '''' [''file.txt'', ''cmd'']" and long = "''file''"
        and short = "''f''" and t = "''file.txt''" and ts = "[''cmd'']" and v = "''file.txt''"
        and h = test_handlers and w = test_world] pa
    by (simp add: current_def)
  have c: "IsStrOpt test_handlers ''file'' ''f'' (current ''file'' '''' [''--verbose'', ''cmd''])
       test_world
     = Returned (False, (current ''file'' '''' [''cmd''])
          \<lparr>err := Some ''Option erwartet ein Options-Argument: --file''\<rparr>) test_world"
    using IsStrOpt_spec[where p = "current ''file'' '''' [''--verbose'', ''cmd'']"
        and long = "''file''" and short = "''f''" and t = "''--verbose''" and ts = "[''cmd'']"
        and h = test_handlers and w = test_world and w' = test_world] pa
    by (simp add: current_def test_handlers_def ReturnError_def)
  have d: "IsStrOpt test_handlers ''file'' ''f'' (current ''file'' '''' []) test_world
     = Returned (False, (current ''file'' '''' [])
          \<lparr>err := Some ''Option erwartet ein Options-Argument: --file''\<rparr>) test_world"
    using IsStrOpt_spec[where p = "current ''file'' '''' []" and long = "''file''"
        and short = "''f''" and h = test_handlers and w = test_world and w' = test_world]
    by (simp add: current_def test_handlers_def ReturnError_def)
  show ?thesis
    by (intro conjI) (rule a, rule b, rule c, rule d)
qed


lemma IsStrOpt_True:
  "IsStrOpt h long short p w = Returned (True, p1) w1
     \<Longrightarrow> opt p1 = long \<and> grabbed p1 \<and> w1 = w \<and> err p1 = err p"
  by (auto simp: IsStrOpt_def Let_def fail_false_def Errorf_def popNextArg_def
      split: if_splits prod.splits outcome.splits)

lemma msgs_distinct:
  "msg_invalid_number s n \<noteq> msg_too_small lo v n'"
  "msg_invalid_number s n \<noteq> msg_too_big hi v n'"
  "msg_too_small lo v n \<noteq> msg_too_big hi v' n'"
  by (simp_all add: msg_invalid_number_def msg_too_small_def msg_too_big_def)

lemma fail_false_raises: "raises h msg p w (fail_false h msg p w)"
  by (simp add: raises_def fail_false_def Errorf_def split: outcome.splits)

text \<open>
  Claim C4. Let \<open>IsStrOpt(long, short)\<close> have succeeded, leaving parser \<open>p1\<close>. Then
  \<open>IsIntOpt(long, short, lo, hi)\<close> returns true exactly when the captured string parses
  as a base-10 integer \<open>v\<close> with \<open>lo \<le> v \<le> hi\<close>, and it then stores \<open>v\<close>. Otherwise it
  raises an error and returns false: "Ungueltige Zahl" when the string does not parse,
  "Zahl muss >= lo sein" when \<open>v < lo\<close>, "Zahl muss <= hi sein" when \<open>v > hi\<close>. The three
  messages differ from each other whatever their arguments, and each ends with the
  option's long name.
\<close>

theorem IsIntOpt_spec:
  assumes "IsStrOpt h long short p w = Returned (True, p1) w1"
  shows
  "((\<exists>p' w'. IsIntOpt h long short lo hi p w = Returned (True, p') w')
       \<longleftrightarrow> (\<exists>v. ParseInt (strVal p1) = Some v \<and> lo \<le> v \<and> v \<le> hi)) \<and>
   (\<forall>v. ParseInt (strVal p1) = Some v \<and> lo \<le> v \<and> v \<le> hi \<longrightarrow>
       IsIntOpt h long short lo hi p w = Returned (True, p1\<lparr>intVal := v\<rparr>) w1) \<and>
   (ParseInt (strVal p1) = None \<longrightarrow>
       raises h (msg_invalid_number (strVal p1) long) p1 w1 (IsIntOpt h long short lo hi p w)) \<and>
   (\<forall>v. ParseInt (strVal p1) = Some v \<and> v < lo \<longrightarrow>
       raises h (msg_too_small lo v long) p1 w1 (IsIntOpt h long short lo hi p w)) \<and>
   (\<forall>v. ParseInt (strVal p1) = Some v \<and> lo \<le> v \<and> hi < v \<longrightarrow>
       raises h (msg_too_big hi v long) p1 w1 (IsIntOpt h long short lo hi p w)) \<and>
   msg_invalid_number s long \<noteq> msg_too_small lo a long \<and>
   msg_invalid_number s long \<noteq> msg_too_big hi b long \<and>
   msg_too_small lo a long \<noteq> msg_too_big hi b long \<and>
   (\<exists>x y z. msg_invalid_number s long = x @ '' (Option --'' @ long @ '')'' \<and>
            msg_too_small lo a long = y @ '' (Option --'' @ long @ '')'' \<and>
            msg_too_big hi b long = z @ '' (Option --'' @ long @ '')'')"
proof -
  have o: "opt p1 = long"
    using IsStrOpt_True[OF assms] by simp
  have r: "\<And>msg. raises h msg p1 w1 (fail_false h msg p1 w1)"
    by (rule fail_false_raises)
  have t: "(\<exists>p' w'. IsIntOpt h long short lo hi p w = Returned (True, p') w')
       \<longleftrightarrow> (\<exists>v. ParseInt (strVal p1) = Some v \<and> lo \<le> v \<and> v \<le> hi)"
    using assms
    by (auto simp: IsIntOpt_def fail_false_def Errorf_def split: option.splits outcome.splits)
  have ok: "\<forall>v. ParseInt (strVal p1) = Some v \<and> lo \<le> v \<and> v \<le> hi \<longrightarrow>
       IsIntOpt h long short lo hi p w = Returned (True, p1\<lparr>intVal := v\<rparr>) w1"
    using assms by (simp add: IsIntOpt_def)
  have e1: "ParseInt (strVal p1) = None \<longrightarrow>
       raises h (msg_invalid_number (strVal p1) long) p1 w1 (IsIntOpt h long short lo hi p w)"
    using assms o r by (simp add: IsIntOpt_def)
  have e2: "\<forall>v. ParseInt (strVal p1) = Some v \<and> v < lo \<longrightarrow>
       raises h (msg_too_small lo v long) p1 w1 (IsIntOpt h long short lo hi p w)"
    using assms o r by (simp add: IsIntOpt_def)
  have e3: "\<forall>v. ParseInt (strVal p1) = Some v \<and> lo \<le> v \<and> hi < v \<longrightarrow>
       raises h (msg_too_big hi v long) p1 w1 (IsIntOpt h long short lo hi p w)"
    using assms o r by (simp add: IsIntOpt_def)
  have n: "\<exists>x y z. msg_invalid_number s long = x @ '' (Option --'' @ long @ '')'' \<and>
            msg_too_small lo a long = y @ '' (Option --'' @ long @ '')'' \<and>
            msg_too_big hi b long = z @ '' (Option --'' @ long @ '')''"
  proof (intro exI conjI)
    show "msg_invalid_number s long
        = (''Ung'' @ [CHR 0xC3, CHR 0xBC] @ ''ltige Zahl: '' @ s) @ '' (Option --'' @ long @ '')''"
      by (simp add: msg_invalid_number_def)
    show "msg_too_small lo a long
        = (''Zahl mu'' @ [CHR 0xC3, CHR 0x9F] @ '' >= '' @ formatInt lo @ '' sein: '' @ formatInt a)
            @ '' (Option --'' @ long @ '')''"
      by (simp add: msg_too_small_def)
    show "msg_too_big hi b long
        = (''Zahl mu'' @ [CHR 0xC3, CHR 0x9F] @ '' <= '' @ formatInt hi @ '' sein: '' @ formatInt b)
            @ '' (Option --'' @ long @ '')''"
      by (simp add: msg_too_big_def)
  qed
  from t ok e1 e2 e3 n show ?thesis
    by (intro conjI) (simp_all add: msgs_distinct)
qed


theorem IsIntOpt_spec_witness:
  "IsIntOpt test_handlers ''level'' ''l'' 0 3 (current ''level'' ''3'' []) test_world
     = Returned (True, (current ''level'' ''3'' [])\<lparr>grabbed := True, intVal := 3\<rparr>) test_world \<and>
   IsIntOpt test_handlers ''level'' ''l'' 0 3 (current ''level'' ''0'' []) test_world
     = Returned (True, (current ''level'' ''0'' [])\<lparr>grabbed := True, intVal := 0\<rparr>) test_world \<and>
   IsIntOpt test_handlers ''level'' ''l'' 0 3 (current ''level'' ''nonum'' []) test_world
     = Returned (False, (current ''level'' ''nonum'' [])\<lparr>grabbed := True,
          err := Some (''Ung'' @ [CHR 0xC3, CHR 0xBC] @ ''ltige Zahl: nonum (Option --level)'')\<rparr>)
         test_world \<and>
   IsIntOpt test_handlers ''level'' ''l'' 0 3 (current ''level'' ''-1'' []) test_world
     = Returned (False, (current ''level'' ''-1'' [])\<lparr>grabbed := True,
          err := Some (''Zahl mu'' @ [CHR 0xC3, CHR 0x9F] @ '' >= 0 sein: -1 (Option --level)'')\<rparr>)
         test_world \<and>
   IsIntOpt test_handlers ''level'' ''l'' 0 3 (current ''level'' ''4'' []) test_world
     = Returned (False, (current ''level'' ''4'' [])\<lparr>grabbed := True,
          err := Some (''Zahl mu'' @ [CHR 0xC3, CHR 0x9F] @ '' <= 3 sein: 4 (Option --level)'')\<rparr>)
         test_world"
proof -
  have s: "\<And>v. v \<noteq> '''' \<Longrightarrow>
      IsStrOpt test_handlers ''level'' ''l'' (current ''level'' v []) test_world
        = Returned (True, (current ''level'' v [])\<lparr>grabbed := True\<rparr>) test_world"
    by (simp add: IsStrOpt_def current_def)
  have s3: "IsStrOpt test_handlers ''level'' ''l'' (current ''level'' ''3'' []) test_world
        = Returned (True, (current ''level'' ''3'' [])\<lparr>grabbed := True\<rparr>) test_world"
    and s0: "IsStrOpt test_handlers ''level'' ''l'' (current ''level'' ''0'' []) test_world
        = Returned (True, (current ''level'' ''0'' [])\<lparr>grabbed := True\<rparr>) test_world"
    and sn: "IsStrOpt test_handlers ''level'' ''l'' (current ''level'' ''nonum'' []) test_world
        = Returned (True, (current ''level'' ''nonum'' [])\<lparr>grabbed := True\<rparr>) test_world"
    and sm: "IsStrOpt test_handlers ''level'' ''l'' (current ''level'' ''-1'' []) test_world
        = Returned (True, (current ''level'' ''-1'' [])\<lparr>grabbed := True\<rparr>) test_world"
    and s4: "IsStrOpt test_handlers ''level'' ''l'' (current ''level'' ''4'' []) test_world
        = Returned (True, (current ''level'' ''4'' [])\<lparr>grabbed := True\<rparr>) test_world"
    by (simp_all add: s)
  have a: "IsIntOpt test_handlers ''level'' ''l'' 0 3 (current ''level'' ''3'' []) test_world
     = Returned (True, (current ''level'' ''3'' [])\<lparr>grabbed := True, intVal := 3\<rparr>) test_world"
    using IsIntOpt_spec[OF s3, where lo = 0 and hi = 3]
    by (simp add: current_def ParseInt_def digit_val_def)
  have b: "IsIntOpt test_handlers ''level'' ''l'' 0 3 (current ''level'' ''0'' []) test_world
     = Returned (True, (current ''level'' ''0'' [])\<lparr>grabbed := True, intVal := 0\<rparr>) test_world"
    using IsIntOpt_spec[OF s0, where lo = 0 and hi = 3]
    by (simp add: current_def ParseInt_def digit_val_def)
  have c: "IsIntOpt test_handlers ''level'' ''l'' 0 3 (current ''level'' ''nonum'' []) test_world
     = Returned (False, (current ''level'' ''nonum'' [])\<lparr>grabbed := True,
          err := Some (''Ung'' @ [CHR 0xC3, CHR 0xBC] @ ''ltige Zahl: nonum (Option --level)'')\<rparr>)
         test_world"
    using IsIntOpt_spec[OF sn, where lo = 0 and hi = 3]
    by (simp add: current_def ParseInt_def digit_val_def raises_def test_handlers_def
        ReturnError_def msg_invalid_number_def)
  have d: "IsIntOpt test_handlers ''level'' ''l'' 0 3 (current ''level'' ''-1'' []) test_world
     = Returned (False, (current ''level'' ''-1'' [])\<lparr>grabbed := True,
          err := Some (''Zahl mu'' @ [CHR 0xC3, CHR 0x9F] @ '' >= 0 sein: -1 (Option --level)'')\<rparr>)
         test_world"
    using IsIntOpt_spec[OF sm, where lo = 0 and hi = 3]
    by (simp add: current_def ParseInt_def digit_val_def raises_def test_handlers_def
        ReturnError_def msg_too_small_def formatInt_def digits.simps)
  have e: "IsIntOpt test_handlers ''level'' ''l'' 0 3 (current ''level'' ''4'' []) test_world
     = Returned (False, (current ''level'' ''4'' [])\<lparr>grabbed := True,
          err := Some (''Zahl mu'' @ [CHR 0xC3, CHR 0x9F] @ '' <= 3 sein: 4 (Option --level)'')\<rparr>)
         test_world"
    using IsIntOpt_spec[OF s4, where lo = 0 and hi = 3]
    by (simp add: current_def ParseInt_def digit_val_def raises_def test_handlers_def
        ReturnError_def msg_too_big_def formatInt_def digits.simps)
  show ?thesis
    by (intro conjI) (rule a, rule b, rule c, rule d, rule e)
qed

section \<open>The parse loop: unclaimed tokens and the help flag\<close>

lemma IsOpt_settled: "IsOpt h long short p w = Returned (b, p') w' \<Longrightarrow> settled p p'"
  by (auto simp: settled_def IsOpt_def Let_def fail_false_def Errorf_def
      split: if_splits outcome.splits)

lemma IsStrOpt_settled: "IsStrOpt h long short p w = Returned (b, p') w' \<Longrightarrow> settled p p'"
  by (auto simp: settled_def IsStrOpt_def Let_def fail_false_def Errorf_def popNextArg_def
      split: if_splits outcome.splits prod.splits)

lemma IsIntOpt_settled:
  "IsIntOpt h long short lo hi p w = Returned (b, p') w' \<Longrightarrow> settled p p'"
proof -
  assume a: "IsIntOpt h long short lo hi p w = Returned (b, p') w'"
  then obtain b1 p1 w1 where s: "IsStrOpt h long short p w = Returned (b1, p1) w1"
    by (auto simp: IsIntOpt_def split: outcome.splits)
  show ?thesis
  proof (cases b1)
    case True
    with s have "grabbed p1"
      using IsStrOpt_True[of h long short p w p1 w1] by simp
    with a s True show ?thesis
      by (auto simp: settled_def IsIntOpt_def fail_false_def Errorf_def
          split: option.splits if_splits outcome.splits)
  next
    case False
    with a s have "p' = p1"
      by (simp add: IsIntOpt_def)
    with s show ?thesis
      using IsStrOpt_settled[of h long short p w b1 p1 w1] by simp
  qed
qed

lemma run_settled: "run fn h p w = Returned p' w' \<Longrightarrow> settled p p'"
proof (rule run_preserves[where R = settled])
  show "\<And>p. settled p p"
    by (simp add: settled_def)
  show "\<And>a b c. settled a b \<Longrightarrow> settled b c \<Longrightarrow> settled a c"
    by (auto simp: settled_def)
  show "\<And>p. settled p (snd (Arg p))"
    by (simp add: settled_def Arg_def Let_def)
  show "\<And>msg p w p' w'. Errorf h msg p w = Returned p' w' \<Longrightarrow> settled p p'"
    by (auto simp: settled_def Errorf_def split: outcome.splits)
qed (auto intro: IsOpt_settled IsStrOpt_settled IsIntOpt_settled)

text \<open>
  Claim C1. Let the loop fetch a token, classified into parser \<open>p1\<close>, and let the
  callback return with the token not claimed and no error recorded. Then the loop ends
  at once: the error handler is given "Unbekannte Option: --NAME", where NAME is the
  classified option name, when that name is not empty, and "Zu viele Argumente!" when it
  is empty; if the handler returns, \<open>ParseArgs\<close> returns that error. The result is the
  handler's, applied to the world the callback left: no later token is fetched.
\<close>

theorem unclaimed_token_fails:
  assumes more: "0 < length (rest p)"
    and cur: "fetch p = Current p1"
    and cb: "run fn h p1 w = Returned p2 w1"
    and unclaimed: "\<not> grabbed p2"
    and noerr: "err p2 = None"
  shows "loop fn h p w =
     (let msg = (if opt p1 \<noteq> '''' then ''Unbekannte Option: --'' @ opt p1
                 else ''Zu viele Argumente!'')
      in case ErrorFunc h msg w1 of
           Exited c w2 \<Rightarrow> Exited c w2
         | Returned u w2 \<Rightarrow> Returned (Some msg) w2)"
proof -
  have "p2 = p1"
    using run_settled[OF cb] unclaimed noerr by (simp add: settled_def)
  then show ?thesis
    using assms
    by (subst loop.simps) (simp add: unclaimed_msg_def Errorf_def Let_def split: outcome.splits)
qed

lemmas eval_parser =
  fetch_def popNextArg_def parseArg_def HasPrefix_def TrimLeft_def SplitN2_def
  IsOpt_def IsStrOpt_def IsIntOpt_def fail_false_def Errorf_def
  IsArg_def IsArgN_def Arg_def ArgIdx_def StrVal_def IntVal_def unclaimed_msg_def
  ParseInt_def digit_val_def Let_def

lemmas eval_tests =
  test_fn_def set_opts_def test_handlers_def test_world_def no_opts_def ReturnError_def
  current_def

theorem unclaimed_token_fails_witness:
  "loop test_fn test_handlers (current '''' '''' [''--unknown'', ''--verbose'']) test_world
     = Returned (Some ''Unbekannte Option: --unknown'') test_world \<and>
   loop test_fn test_handlers ((current '''' '''' [''arg2'', ''arg3''])\<lparr>argIdx := 3\<rparr>) test_world
     = Returned (Some ''Zu viele Argumente!'') test_world"
proof -
  have f1: "fetch (current '''' '''' [''--unknown'', ''--verbose''])
      = Current (current ''unknown'' '''' [''--verbose''])"
    by (simp add: eval_parser eval_tests)
  have r1: "run test_fn test_handlers (current ''unknown'' '''' [''--verbose'']) test_world
      = Returned (current ''unknown'' '''' [''--verbose'']) test_world"
    by (simp add: eval_parser eval_tests)
  have a: "loop test_fn test_handlers (current '''' '''' [''--unknown'', ''--verbose'']) test_world
     = Returned (Some ''Unbekannte Option: --unknown'') test_world"
    using unclaimed_token_fails[OF _ f1 r1]
    by (simp add: eval_tests)
  have f2: "fetch ((current '''' '''' [''arg2'', ''arg3''])\<lparr>argIdx := 3\<rparr>)
      = Current ((current '''' ''arg2'' [''arg3''])\<lparr>argIdx := 3\<rparr>)"
    by (simp add: eval_parser eval_tests)
  have r2: "run test_fn test_handlers ((current '''' ''arg2'' [''arg3''])\<lparr>argIdx := 3\<rparr>) test_world
      = Returned ((current '''' ''arg2'' [''arg3''])\<lparr>argIdx := 3\<rparr>) test_world"
    by (simp add: eval_parser eval_tests)
  have b: "loop test_fn test_handlers ((current '''' '''' [''arg2'', ''arg3''])\<lparr>argIdx := 3\<rparr>)
       test_world
     = Returned (Some ''Zu viele Argumente!'') test_world"
    using unclaimed_token_fails[OF _ f2 r2]
    by (simp add: eval_tests)
  show ?thesis
    by (intro conjI) (rule a, rule b)
qed


text \<open>
  Claim C7, as amended. When the parser is not in only-positional mode and the next token
  is \<open>--help\<close>, the help handler is called with the help text as configured (the loop
  does not format it) in the world the earlier tokens left; if the handler returns,
  \<open>ParseArgs\<close> returns at once with no error, and if it ends the process, the process
  ends. Neither the callback nor the tokens after \<open>--help\<close> have any part in the result.
  The default handler \<open>PrintHelp\<close> formats the text itself, prints it and ends the
  process with status 0.
\<close>

theorem help_flag_stops:
  assumes "rest p = ''--help'' # ts" and "\<not> onlyArgs p"
  shows "loop fn h p w =
           (case HelpFunc h (Help w) w of
              Exited c w' \<Rightarrow> Exited c w'
            | Returned u w' \<Rightarrow> Returned None w') \<and>
         (HelpFunc h = PrintHelp \<longrightarrow>
            loop fn h p w = Exited 0 (w\<lparr>stdout := stdout w @ FormatHelp (Help w) @ [NL]\<rparr>))"
  using assms
  by (subst (1 2) loop.simps)
    (simp add: fetch_def popNextArg_def PrintHelp_def Fprintln_def split: outcome.splits)

theorem help_flag_stops_witness:
  "loop test_fn test_handlers (current ''verbose'' '''' [''--help'', ''--file''])
       (test_world\<lparr>user := no_opts\<lparr>verbose := True\<rparr>\<rparr>)
     = Returned None
         (test_world\<lparr>user := no_opts\<lparr>verbose := True,
                                       help_text := ''Verwendung: cmdline [OPTS]''\<rparr>\<rparr>) \<and>
   loop test_fn \<lparr>ErrorFunc = ReturnError, HelpFunc = PrintHelp\<rparr>
       (current ''verbose'' '''' [''--help'', ''--file'']) (test_world\<lparr>Help := '' | x ''\<rparr>)
     = Exited 0 (test_world\<lparr>Help := '' | x '', stdout := ''  x'' @ [NL]\<rparr>)"
proof -
  have a: "loop test_fn test_handlers (current ''verbose'' '''' [''--help'', ''--file''])
       (test_world\<lparr>user := no_opts\<lparr>verbose := True\<rparr>\<rparr>)
     = Returned None
         (test_world\<lparr>user := no_opts\<lparr>verbose := True,
                                       help_text := ''Verwendung: cmdline [OPTS]''\<rparr>\<rparr>)"
    using help_flag_stops[where p = "current ''verbose'' '''' [''--help'', ''--file'']"
        and ts = "[''--file'']" and fn = test_fn and h = test_handlers
        and w = "test_world\<lparr>user := no_opts\<lparr>verbose := True\<rparr>\<rparr>", THEN conjunct1]
    by (simp add: eval_tests)
  have f: "FormatHelp '' | x '' = ''  x''"
    by (simp add: FormatHelp_def TrimSpace_def isSpace_def HasPrefix_def)
  have b: "loop test_fn \<lparr>ErrorFunc = ReturnError, HelpFunc = PrintHelp\<rparr>
       (current ''verbose'' '''' [''--help'', ''--file'']) (test_world\<lparr>Help := '' | x ''\<rparr>)
     = Exited 0 (test_world\<lparr>Help := '' | x '', stdout := ''  x'' @ [NL]\<rparr>)"
    using help_flag_stops[where p = "current ''verbose'' '''' [''--help'', ''--file'']"
        and ts = "[''--file'']" and fn = test_fn
        and h = "\<lparr>ErrorFunc = ReturnError, HelpFunc = PrintHelp\<rparr>"
        and w = "test_world\<lparr>Help := '' | x ''\<rparr>", THEN conjunct2] f
    by (simp add: eval_tests)
  show ?thesis
    by (intro conjI) (rule a, rule b)
qed

text \<open>
  Claim C7 as stated fails: with the help text \<open>" | x "\<close>, which \<open>FormatHelp\<close> turns
  into \<open>"  x"\<close>, the handler of the tests (it stores the text it is given) receives the
  text as configured, not the formatted one.
\<close>

theorem help_text_unformatted_counterexample:
  "ParseArgs [''cmdline'', ''--verbose'', ''--help'', ''--file'']
       test_fn test_handlers (test_world\<lparr>Help := '' | x ''\<rparr>)
     = Returned None
         (test_world\<lparr>Program := ''cmdline'', Help := '' | x '',
                      user := no_opts\<lparr>verbose := True, help_text := '' | x ''\<rparr>\<rparr>) \<and>
   FormatHelp '' | x '' = ''  x'' \<and>
   '' | x '' \<noteq> FormatHelp '' | x ''"
proof -
  have a: "ParseArgs [''cmdline'', ''--verbose'', ''--help'', ''--file'']
       test_fn test_handlers (test_world\<lparr>Help := '' | x ''\<rparr>)
     = Returned None
         (test_world\<lparr>Program := ''cmdline'', Help := '' | x '',
                      user := no_opts\<lparr>verbose := True, help_text := '' | x ''\<rparr>\<rparr>)"
    by (simp add: ParseArgs_def Base_def loop.simps eval_parser eval_tests)
  have f: "FormatHelp '' | x '' = ''  x''"
    by (simp add: FormatHelp_def TrimSpace_def isSpace_def HasPrefix_def)
  show ?thesis
    using a f by simp
qed


section \<open>Only-positional mode\<close>

lemma onlyArgs_kept:
  "run fn h p w = Returned p' w' \<Longrightarrow> onlyArgs p' = onlyArgs p"
proof (rule run_preserves[where R = "\<lambda>a b. onlyArgs b = onlyArgs a"])
  show "\<And>long short p w b p' w'.
      IsOpt h long short p w = Returned (b, p') w' \<Longrightarrow> onlyArgs p' = onlyArgs p"
    by (auto simp: IsOpt_def Let_def fail_false_def Errorf_def split: if_splits outcome.splits)
  show "\<And>long short p w b p' w'.
      IsStrOpt h long short p w = Returned (b, p') w' \<Longrightarrow> onlyArgs p' = onlyArgs p"
    by (auto simp: IsStrOpt_def Let_def fail_false_def Errorf_def popNextArg_def
        split: if_splits outcome.splits prod.splits)
  show "\<And>long short lo hi p w b p' w'.
      IsIntOpt h long short lo hi p w = Returned (b, p') w' \<Longrightarrow> onlyArgs p' = onlyArgs p"
    by (auto simp: IsIntOpt_def IsStrOpt_def Let_def fail_false_def Errorf_def popNextArg_def
        split: if_splits outcome.splits prod.splits option.splits)
  show "\<And>p. onlyArgs (snd (Arg p)) = onlyArgs p"
    by (simp add: Arg_def Let_def)
  show "\<And>msg p w p' w'. Errorf h msg p w = Returned p' w' \<Longrightarrow> onlyArgs p' = onlyArgs p"
    by (auto simp: Errorf_def split: outcome.splits)
qed auto

text \<open>
  Once the mode is on it stays on, and a token fetched while it is on is exposed
  verbatim: the part of claim C5 that holds.
\<close>

lemma only_positional_mode_stays:
  "onlyArgs p \<Longrightarrow> rest p = t # ts \<Longrightarrow>
     fetch p = Current (p\<lparr>rest := ts, opt := '''', strVal := t, grabbed := False\<rparr>) \<and>
     (run fn h (p\<lparr>rest := ts, opt := '''', strVal := t, grabbed := False\<rparr>) w = Returned p' w'
        \<longrightarrow> onlyArgs p')"
  by (auto simp: fetch_def popNextArg_def dest: onlyArgs_kept)

text \<open>
  Claim C5 fails on the code for the token that follows \<open>--\<close>: the turn of the loop that
  pops \<open>--\<close> switches the mode on, pops the following token and classifies it with
  \<open>parseArg\<close> like any token outside the mode. So \<open>-- --file=file.txt\<close> exposes the
  option \<open>file\<close> with value \<open>file.txt\<close>, and the callback of the tests stores a file
  name where the claim has the positional \<open>--file=file.txt\<close>.
\<close>

theorem token_after_end_of_options_is_classified:
  "fetch (current '''' '''' [''--'', ''--file=file.txt''])
     = Current ((current ''file'' ''file.txt'' [])\<lparr>onlyArgs := True\<rparr>) \<and>
   parse_cmdline [''cmdline'', ''--'', ''--file=file.txt'']
     = Returned None (test_world\<lparr>Program := ''cmdline'',
                                  user := no_opts\<lparr>file_name := ''file.txt''\<rparr>\<rparr>)"
  by (simp add: parse_cmdline_def ParseArgs_def Base_def loop.simps eval_parser eval_tests)

section \<open>Messages\<close>

text \<open>
  Claim C9 fails on the code: the first line is formatted with a line break at its end
  (\<open>"%s: %s\n"\<close>) and \<open>Fprintln\<close> adds another, so the formatter is given a line that
  ends in a line break and an empty line follows the first line. For the program
  \<open>prog\<close>, the identity formatter and the message \<open>hello\<close> the output is
  \<open>prog: hello\<close>, a line break, and a second line break.
\<close>

theorem ProgramMessage_blank_line:
  "ProgramMessage ''prog'' DontFormat ''hello'' = ''prog: hello'' @ [NL, NL] \<and>
   ProgramMessage ''prog'' DontFormat (''a'' @ [NL] @ ''b'')
     = ''prog: a'' @ [NL, NL] @ ''      b'' @ [NL] \<and>
   ProgramMessage ''prog'' (\<lambda>line. ''<'' @ line @ ''>'') ''hello''
     = ''<prog: hello'' @ [NL] @ ''>'' @ [NL]"
  by (simp add: ProgramMessage_def DontFormat_def Fprintln_def)


section \<open>Positional arguments\<close>

lemma IsOpt_argIdx:
  "IsOpt h long short p w = Returned (b, p') w'
     \<Longrightarrow> argIdx p' = argIdx p \<and> (grabbed p \<longrightarrow> grabbed p')"
  by (auto simp: IsOpt_def Let_def fail_false_def Errorf_def split: if_splits outcome.splits)

lemma IsStrOpt_argIdx:
  "IsStrOpt h long short p w = Returned (b, p') w'
     \<Longrightarrow> argIdx p' = argIdx p \<and> (grabbed p \<longrightarrow> grabbed p')"
  by (auto simp: IsStrOpt_def Let_def fail_false_def Errorf_def popNextArg_def
      split: if_splits outcome.splits prod.splits)

lemma IsIntOpt_argIdx:
  "IsIntOpt h long short lo hi p w = Returned (b, p') w'
     \<Longrightarrow> argIdx p' = argIdx p \<and> (grabbed p \<longrightarrow> grabbed p')"
  by (auto simp: IsIntOpt_def fail_false_def Errorf_def
      split: if_splits outcome.splits prod.splits option.splits dest: IsStrOpt_argIdx)

lemma Errorf_argIdx:
  "Errorf h msg p w = Returned p' w' \<Longrightarrow> argIdx p' = argIdx p \<and> grabbed p' = grabbed p"
  by (auto simp: Errorf_def split: outcome.splits)

lemma fetch_argIdx: "fetch p = Current p1 \<Longrightarrow> argIdx p1 = argIdx p"
  by (auto simp: fetch_def popNextArg_def split: if_splits prod.splits)

lemma run_index_step: "run fn h p w = Returned p' w' \<Longrightarrow> index_step p p'"
proof (rule run_preserves[where R = index_step])
  show "\<And>p. index_step p p"
    by (simp add: index_step_def)
  show "\<And>a b c. index_step a b \<Longrightarrow> index_step b c \<Longrightarrow> index_step a c"
    by (auto simp: index_step_def split: if_splits)
  show "\<And>p. index_step p (snd (Arg p))"
    by (simp add: index_step_def Arg_def Let_def)
  show "\<And>long short p w b p' w'.
      IsOpt h long short p w = Returned (b, p') w' \<Longrightarrow> index_step p p'"
    by (auto simp: index_step_def dest: IsOpt_argIdx)
  show "\<And>long short p w b p' w'.
      IsStrOpt h long short p w = Returned (b, p') w' \<Longrightarrow> index_step p p'"
    by (auto simp: index_step_def dest: IsStrOpt_argIdx)
  show "\<And>long short lo hi p w b p' w'.
      IsIntOpt h long short lo hi p w = Returned (b, p') w' \<Longrightarrow> index_step p p'"
    by (auto simp: index_step_def dest: IsIntOpt_argIdx)
  show "\<And>msg p w p' w'. Errorf h msg p w = Returned p' w' \<Longrightarrow> index_step p p'"
    by (auto simp: index_step_def dest: Errorf_argIdx)
qed auto

text \<open>
  Claim C8. \<open>Arg()\<close> returns the current string value; on an unclaimed token it sets the
  claimed flag and adds one to the positional index, on a claimed token it changes
  nothing, so a second call changes nothing and returns the same value. No other
  operation changes the index: not \<open>IsOpt\<close>, \<open>IsStrOpt\<close>, \<open>IsIntOpt\<close> or \<open>Errorf\<close>, not the
  fetching of a token; \<open>IsArg()\<close>, \<open>IsArgN(idx)\<close> and \<open>ArgIdx()\<close> change neither the
  index nor the claimed flag. Over a whole invocation of any callback the index stays, or
  the token goes from unclaimed to claimed and the index grows by exactly one.
\<close>

theorem Arg_alone_advances_index:
  "Arg p = (strVal p, if grabbed p then p else p\<lparr>grabbed := True, argIdx := argIdx p + 1\<rparr>) \<and>
   Arg (snd (Arg p)) = (strVal p, snd (Arg p)) \<and>
   (\<forall>b p' w'. IsOpt h long short p w = Returned (b, p') w' \<longrightarrow> argIdx p' = argIdx p) \<and>
   (\<forall>b p' w'. IsStrOpt h long short p w = Returned (b, p') w' \<longrightarrow> argIdx p' = argIdx p) \<and>
   (\<forall>b p' w'. IsIntOpt h long short lo hi p w = Returned (b, p') w' \<longrightarrow> argIdx p' = argIdx p) \<and>
   (\<forall>p' w'. Errorf h msg p w = Returned p' w' \<longrightarrow> argIdx p' = argIdx p) \<and>
   (\<forall>p1. fetch p = Current p1 \<longrightarrow> argIdx p1 = argIdx p) \<and>
   run (CallIsArg (\<lambda>b. Done)) h p w = Returned p w \<and>
   run (CallIsArgN idx (\<lambda>b. Done)) h p w = Returned p w \<and>
   run (CallArgIdx (\<lambda>i. Done)) h p w = Returned p w \<and>
   (\<forall>p' w'. run fn h p w = Returned p' w' \<longrightarrow>
      (argIdx p' = argIdx p \<and> (grabbed p \<longrightarrow> grabbed p')) \<or>
      (\<not> grabbed p \<and> grabbed p' \<and> argIdx p' = argIdx p + 1))"
proof (intro conjI)
  show "Arg p = (strVal p, if grabbed p then p else p\<lparr>grabbed := True, argIdx := argIdx p + 1\<rparr>)"
    by (simp add: Arg_def Let_def)
  show "Arg (snd (Arg p)) = (strVal p, snd (Arg p))"
    by (simp add: Arg_def Let_def)
  show "\<forall>b p' w'. IsOpt h long short p w = Returned (b, p') w' \<longrightarrow> argIdx p' = argIdx p"
    by (auto dest: IsOpt_argIdx)
  show "\<forall>b p' w'. IsStrOpt h long short p w = Returned (b, p') w' \<longrightarrow> argIdx p' = argIdx p"
    by (auto dest: IsStrOpt_argIdx)
  show "\<forall>b p' w'. IsIntOpt h long short lo hi p w = Returned (b, p') w' \<longrightarrow> argIdx p' = argIdx p"
    by (auto dest: IsIntOpt_argIdx)
  show "\<forall>p' w'. Errorf h msg p w = Returned p' w' \<longrightarrow> argIdx p' = argIdx p"
    by (auto dest: Errorf_argIdx)
  show "\<forall>p1. fetch p = Current p1 \<longrightarrow> argIdx p1 = argIdx p"
    by (auto dest: fetch_argIdx)
  show "\<forall>p' w'. run fn h p w = Returned p' w' \<longrightarrow>
      (argIdx p' = argIdx p \<and> (grabbed p \<longrightarrow> grabbed p')) \<or>
      (\<not> grabbed p \<and> grabbed p' \<and> argIdx p' = argIdx p + 1)"
    by (auto dest!: run_index_step simp: index_step_def split: if_splits)
qed simp_all


theorem Arg_alone_advances_index_witness:
  "Arg (current '''' ''cmd'' []) = (''cmd'', (current '''' ''cmd'' [])\<lparr>grabbed := True, argIdx := 1\<rparr>) \<and>
   Arg (snd (Arg (current '''' ''cmd'' []))) = (''cmd'', snd (Arg (current '''' ''cmd'' []))) \<and>
   run test_fn test_handlers (current '''' ''cmd'' []) test_world
     = Returned ((current '''' ''cmd'' [])\<lparr>grabbed := True, argIdx := 1\<rparr>)
         (test_world\<lparr>user := no_opts\<lparr>cmd := ''cmd''\<rparr>\<rparr>) \<and>
   argIdx ((current '''' ''cmd'' [])\<lparr>grabbed := True, argIdx := 1\<rparr>)
     = argIdx (current '''' ''cmd'' []) + 1 \<and>
   IsOpt test_handlers ''verbose'' ''v'' ((current ''v'' '''' [])\<lparr>argIdx := 2\<rparr>) test_world
     = Returned (True, (current ''verbose'' '''' [])\<lparr>argIdx := 2, grabbed := True\<rparr>) test_world \<and>
   argIdx ((current ''verbose'' '''' [])\<lparr>argIdx := 2, grabbed := True\<rparr>) = 2"
proof -
  note t = Arg_alone_advances_index[where p = "current '''' ''cmd'' []" and fn = test_fn
      and h = test_handlers and w = test_world]
  note u = Arg_alone_advances_index[where p = "(current ''v'' '''' [])\<lparr>argIdx := 2\<rparr>"
      and long = "''verbose''" and short = "''v''" and h = test_handlers and w = test_world]
  have a: "Arg (current '''' ''cmd'' [])
      = (''cmd'', (current '''' ''cmd'' [])\<lparr>grabbed := True, argIdx := 1\<rparr>)"
    using t[THEN conjunct1] by (simp add: current_def)
  have b: "Arg (snd (Arg (current '''' ''cmd'' []))) = (''cmd'', snd (Arg (current '''' ''cmd'' [])))"
    using t[THEN conjunct2, THEN conjunct1] by (simp add: current_def)
  have r: "run test_fn test_handlers (current '''' ''cmd'' []) test_world
     = Returned ((current '''' ''cmd'' [])\<lparr>grabbed := True, argIdx := 1\<rparr>)
         (test_world\<lparr>user := no_opts\<lparr>cmd := ''cmd''\<rparr>\<rparr>)"
    by (simp add: eval_parser eval_tests)
  have c: "argIdx ((current '''' ''cmd'' [])\<lparr>grabbed := True, argIdx := 1\<rparr>)
     = argIdx (current '''' ''cmd'' []) + 1"
    using t r by (simp add: current_def)
  have i: "IsOpt test_handlers ''verbose'' ''v'' ((current ''v'' '''' [])\<lparr>argIdx := 2\<rparr>) test_world
     = Returned (True, (current ''verbose'' '''' [])\<lparr>argIdx := 2, grabbed := True\<rparr>) test_world"
    by (simp add: IsOpt_def current_def)
  have d: "argIdx ((current ''verbose'' '''' [])\<lparr>argIdx := 2, grabbed := True\<rparr>) = 2"
    using u i by (simp add: current_def)
  show ?thesis
    by (intro conjI) (rule a, rule b, rule r, rule c, rule i, rule d)
qed

section \<open>The empty token\<close>

lemma empty_token_run:
  "claims_by_tests fn False \<Longrightarrow> opt p = '''' \<Longrightarrow> strVal p = ''''
     \<Longrightarrow> \<exists>w'. run fn h p w = Returned p w'"
proof (induction fn arbitrary: w rule: callback_induct)
  case (CallIsOpt long short k)
  then have "IsOpt h long short p w = Returned (False, p) w"
    by (auto simp: IsOpt_def)
  with CallIsOpt show ?case by simp
next
  case (CallIsStrOpt long short k)
  then have "IsStrOpt h long short p w = Returned (False, p) w"
    by (auto simp: IsStrOpt_def)
  with CallIsStrOpt show ?case by simp
next
  case (CallIsIntOpt long short lo hi k)
  then have "IsStrOpt h long short p w = Returned (False, p) w"
    by (auto simp: IsStrOpt_def)
  then have "IsIntOpt h long short lo hi p w = Returned (False, p) w"
    by (simp add: IsIntOpt_def)
  with CallIsIntOpt show ?case by simp
next
  case (CallIsArg k)
  then show ?case by (simp add: IsArg_def)
next
  case (CallIsArgN idx k)
  then show ?case by (simp add: IsArgN_def IsArg_def)
qed simp_all

text \<open>
  Claim C10, as amended. An empty token is fetched as the empty option name with the
  empty value, in and out of only-positional mode and right after \<open>--\<close>; for such a
  token \<open>IsArg()\<close> and \<open>IsArgN(idx)\<close> are false for every index. A callback that claims
  positional tokens only after one of these tests has succeeded, tests options under
  non-empty names only and raises no error of its own leaves the token unclaimed and the
  parser as it was, and the parse fails with "Zu viele Argumente!".
\<close>

theorem empty_token_too_many_arguments:
  "(rest p = '''' # ts \<longrightarrow>
      fetch p = Current (p\<lparr>rest := ts, opt := '''', strVal := '''', grabbed := False\<rparr>)) \<and>
   (\<not> onlyArgs p \<and> rest p = ''--'' # '''' # ts \<longrightarrow>
      fetch p = Current (p\<lparr>rest := ts, onlyArgs := True, opt := '''', strVal := '''',
                           grabbed := False\<rparr>)) \<and>
   (opt q = '''' \<and> strVal q = '''' \<longrightarrow> \<not> IsArg q \<and> \<not> IsArgN q idx) \<and>
   (rest p \<noteq> [] \<and> fetch p = Current p1 \<and> opt p1 = '''' \<and> strVal p1 = '''' \<and> err p = None \<and>
    claims_by_tests fn False \<longrightarrow>
      (\<exists>w1. run fn h p1 w = Returned p1 w1 \<and>
            loop fn h p w =
              (case ErrorFunc h ''Zu viele Argumente!'' w1 of
                 Exited c w2 \<Rightarrow> Exited c w2
               | Returned x w2 \<Rightarrow> Returned (Some ''Zu viele Argumente!'') w2)))"
proof (intro conjI impI)
  assume "rest p = '''' # ts"
  then show "fetch p = Current (p\<lparr>rest := ts, opt := '''', strVal := '''', grabbed := False\<rparr>)"
    by (simp add: fetch_def popNextArg_def parseArg_def HasPrefix_def)
next
  assume "\<not> onlyArgs p \<and> rest p = ''--'' # '''' # ts"
  then show "fetch p = Current (p\<lparr>rest := ts, onlyArgs := True, opt := '''', strVal := '''',
                           grabbed := False\<rparr>)"
    by (simp add: fetch_def popNextArg_def parseArg_def HasPrefix_def)
next
  assume "opt q = '''' \<and> strVal q = ''''"
  then show "\<not> IsArg q" and "\<not> IsArgN q idx"
    by (simp_all add: IsArg_def IsArgN_def)
next
  assume a: "rest p \<noteq> [] \<and> fetch p = Current p1 \<and> opt p1 = '''' \<and> strVal p1 = '''' \<and>
    err p = None \<and> claims_by_tests fn False"
  then obtain w1 where r: "run fn h p1 w = Returned p1 w1"
    using empty_token_run[of fn p1 h w] by auto
  from a have g: "\<not> grabbed p1 \<and> err p1 = None"
    by (auto simp: fetch_def popNextArg_def split: if_splits prod.splits)
  have "loop fn h p w =
      (case ErrorFunc h ''Zu viele Argumente!'' w1 of
         Exited c w2 \<Rightarrow> Exited c w2
       | Returned x w2 \<Rightarrow> Returned (Some ''Zu viele Argumente!'') w2)"
    using a r g
    by (subst loop.simps) (simp add: unclaimed_msg_def Errorf_def split: outcome.splits)
  with r show "\<exists>w1. run fn h p1 w = Returned p1 w1 \<and>
            loop fn h p w =
              (case ErrorFunc h ''Zu viele Argumente!'' w1 of
                 Exited c w2 \<Rightarrow> Exited c w2
               | Returned x w2 \<Rightarrow> Returned (Some ''Zu viele Argumente!'') w2)"
    by blast
qed


theorem empty_token_too_many_arguments_witness:
  "fetch (current ''x'' ''y'' ['''', ''later'']) = Current (current '''' '''' [''later'']) \<and>
   \<not> IsArg (current '''' '''' [''later'']) \<and>
   \<not> IsArgN (current '''' '''' [''later'']) 0 \<and>
   loop test_fn test_handlers (current ''x'' ''y'' ['''', ''later'']) test_world
     = Returned (Some ''Zu viele Argumente!'') test_world"
proof -
  note t = empty_token_too_many_arguments[where p = "current ''x'' ''y'' ['''', ''later'']"
      and ts = "[''later'']" and q = "current '''' '''' [''later'']" and idx = 0
      and ?p1.0 = "current '''' '''' [''later'']" and fn = test_fn and h = test_handlers
      and w = test_world]
  have f: "fetch (current ''x'' ''y'' ['''', ''later'']) = Current (current '''' '''' [''later''])"
    using t[THEN conjunct1] by (simp add: current_def)
  have a: "\<not> IsArg (current '''' '''' [''later'']) \<and> \<not> IsArgN (current '''' '''' [''later'']) 0"
    using t[THEN conjunct2, THEN conjunct2, THEN conjunct1] by (simp add: current_def)
  have c: "claims_by_tests test_fn False"
    by (simp add: test_fn_def)
  have r: "run test_fn test_handlers (current '''' '''' [''later'']) test_world
      = Returned (current '''' '''' [''later'']) test_world"
    by (simp add: eval_parser eval_tests)
  have "\<exists>w1. run test_fn test_handlers (current '''' '''' [''later'']) test_world
            = Returned (current '''' '''' [''later'']) w1 \<and>
          loop test_fn test_handlers (current ''x'' ''y'' ['''', ''later'']) test_world
            = (case ErrorFunc test_handlers ''Zu viele Argumente!'' w1 of
                 Exited c w2 \<Rightarrow> Exited c w2
               | Returned x w2 \<Rightarrow> Returned (Some ''Zu viele Argumente!'') w2)"
    using t[THEN conjunct2, THEN conjunct2, THEN conjunct2] f c
    by (simp add: current_def)
  then obtain w1 where
    u: "Returned (current '''' '''' [''later'']) test_world
          = (Returned (current '''' '''' [''later'']) w1 :: (Parser, Opts world) outcome)"
    and l: "loop test_fn test_handlers (current ''x'' ''y'' ['''', ''later'']) test_world
            = (case ErrorFunc test_handlers ''Zu viele Argumente!'' w1 of
                 Exited c w2 \<Rightarrow> Exited c w2
               | Returned x w2 \<Rightarrow> Returned (Some ''Zu viele Argumente!'') w2)"
    unfolding r by blast
  from u have "w1 = test_world"
    by simp
  with l have b: "loop test_fn test_handlers (current ''x'' ''y'' ['''', ''later'']) test_world
     = Returned (Some ''Zu viele Argumente!'') test_world"
    by (simp add: test_handlers_def ReturnError_def)
  from f a b show ?thesis
    by simp
qed

text \<open>
  Claim C10 as stated fails for a callback that tests an option under an empty short
  name: the empty token has the empty option name, so \<open>IsOpt("verbose", "")\<close> matches
  and claims it, and the parse succeeds although the callback claims positional arguments
  after \<open>IsArg()\<close> only.
\<close>

theorem empty_token_claimed_counterexample:
  "ParseArgs [''cmdline'', ''''] no_short_fn test_handlers test_world
     = Returned None (test_world\<lparr>Program := ''cmdline'', user := no_opts\<lparr>verbose := True\<rparr>\<rparr>)"
  by (simp add: ParseArgs_def Base_def loop.simps no_short_fn_def eval_parser eval_tests)


section \<open>The tests of the package\<close>

text \<open>
  The model gives the results the test file of the package asserts
  (\<open>TestLongOpts\<close>, \<open>TestShortOpts\<close>, \<open>TestHelp\<close>, \<open>TestOnlyArgs\<close>, \<open>TestTooManyArgs\<close>,
  \<open>TestUnknownOpt\<close>, \<open>TestMissingOptVal\<close>, \<open>TestUnwantedOptVal\<close>, \<open>TestInvalidIntVal\<close>,
  \<open>TestFormatHelp\<close>). In the tests the program name is set by the first parse and stays.
\<close>

lemmas eval_parse_cmdline =
  parse_cmdline_def ParseArgs_def Base_def loop.simps eval_parser eval_tests
  msg_invalid_number_def msg_too_small_def msg_too_big_def formatInt_def digits.simps

lemma TestLongOpts:
  "parse_cmdline [''/usr/bin/cmdline'', ''--verbose'', ''--file=file.txt'', ''--level=2'',
       ''cmd'', ''arg0'', ''arg1'']
     = Returned None
         (test_world\<lparr>Program := ''cmdline'',
            user := \<lparr>verbose = True, help_text = '''', file_name = ''file.txt'', level = 2,
                     cmd = ''cmd'', args = [''arg0'', ''arg1'']\<rparr>\<rparr>)"
  by (simp add: eval_parse_cmdline)

lemma TestShortOpts:
  "parse_cmdline [''cmdline'', ''-v'', ''-f'', ''file.txt'', ''-l'', ''2'', ''cmd'', ''arg0'']
     = Returned None
         (test_world\<lparr>Program := ''cmdline'',
            user := \<lparr>verbose = True, help_text = '''', file_name = ''file.txt'', level = 2,
                     cmd = ''cmd'', args = [''arg0'']\<rparr>\<rparr>)"
  by (simp add: eval_parse_cmdline)

lemma TestHelp:
  "parse_cmdline [''cmdline'', ''--help'', ''--verbose'']
     = Returned None
         (test_world\<lparr>Program := ''cmdline'',
            user := no_opts\<lparr>help_text := ''Verwendung: cmdline [OPTS]''\<rparr>\<rparr>)"
  by (simp add: eval_parse_cmdline)

lemma TestOnlyArgs:
  "parse_cmdline [''cmdline'', ''-v'', ''--'', ''cmd'', ''--file=file.txt'']
     = Returned None
         (test_world\<lparr>Program := ''cmdline'',
            user := no_opts\<lparr>verbose := True, cmd := ''cmd'', args := [''--file=file.txt'']\<rparr>\<rparr>)"
  by (simp add: eval_parse_cmdline)

lemma TestTooManyArgs:
  "parse_cmdline [''cmdline'', ''cmd'', ''arg0'', ''arg1'', ''arg2'']
     = Returned (Some ''Zu viele Argumente!'')
         (test_world\<lparr>Program := ''cmdline'',
            user := no_opts\<lparr>cmd := ''cmd'', args := [''arg0'', ''arg1'']\<rparr>\<rparr>)"
  by (simp add: eval_parse_cmdline)

lemma TestUnknownOpt:
  "parse_cmdline [''cmdline'', ''--verbose'', ''--unknown'']
     = Returned (Some ''Unbekannte Option: --unknown'')
         (test_world\<lparr>Program := ''cmdline'', user := no_opts\<lparr>verbose := True\<rparr>\<rparr>)"
  by (simp add: eval_parse_cmdline)

lemma TestMissingOptVal:
  "parse_cmdline [''cmdline'', ''--file'', ''--verbose'']
     = Returned (Some ''Option erwartet ein Options-Argument: --file'')
         (test_world\<lparr>Program := ''cmdline''\<rparr>)"
  by (simp add: eval_parse_cmdline)

lemma TestUnwantedOptVal:
  "parse_cmdline [''cmdline'', ''--verbose=file1'']
     = Returned (Some ''Option erlaubt kein Options-Argument: --verbose'')
         (test_world\<lparr>Program := ''cmdline''\<rparr>)"
  by (simp add: eval_parse_cmdline)

lemma TestInvalidIntVal:
  "parse_cmdline [''cmdline'', ''--level=nonum'']
     = Returned (Some (''Ung'' @ [CHR 0xC3, CHR 0xBC] @ ''ltige Zahl: nonum (Option --level)''))
         (test_world\<lparr>Program := ''cmdline''\<rparr>)"
  "parse_cmdline [''cmdline'', ''--level=-1'']
     = Returned (Some (''Zahl mu'' @ [CHR 0xC3, CHR 0x9F] @ '' >= 0 sein: -1 (Option --level)''))
         (test_world\<lparr>Program := ''cmdline''\<rparr>)"
  "parse_cmdline [''cmdline'', ''--level=4'']
     = Returned (Some (''Zahl mu'' @ [CHR 0xC3, CHR 0x9F] @ '' <= 3 sein: 4 (Option --level)''))
         (test_world\<lparr>Program := ''cmdline''\<rparr>)"
  "parse_cmdline [''cmdline'', ''-l'', ''4'']
     = Returned (Some (''Zahl mu'' @ [CHR 0xC3, CHR 0x9F] @ '' <= 3 sein: 4 (Option --level)''))
         (test_world\<lparr>Program := ''cmdline''\<rparr>)"
  by (simp_all add: eval_parse_cmdline)

lemma TestFormatHelp:
  "FormatHelp (''Verwendung: cmd [OPTS]'' @ [NL, CHR 0x09, NL, CHR 0x09]
       @ ''| Mein Kommando.'' @ [NL, CHR 0x09, NL, CHR 0x09]
       @ ''Optionen:'' @ [NL, CHR 0x09]
       @ ''| -v, --verbose'' @ [NL, CHR 0x09, NL, CHR 0x09])
     = ''Verwendung: cmd [OPTS]'' @ [NL, NL] @ ''  Mein Kommando.'' @ [NL, NL]
         @ ''Optionen:'' @ [NL] @ ''  -v, --verbose''"
  by (simp add: FormatHelp_def TrimSpace_def isSpace_def HasPrefix_def)


end
